theory Spec2Isabelle
  imports Complex_Main
begin

section \<open>JavaScript values\<close>

text \<open>
  The library validates plain data: \<open>undefined\<close>, \<open>null\<close>, booleans, numbers, strings,
  arrays and object literals, together with references to functions (constructors such as
  \<open>String\<close>, validators, typecasters, message generators).

  A number is an IEEE double. Its comparisons and equalities depend only on the value it
  denotes, so a number is modelled as \<open>NaN\<close>, an infinity or a real; \<open>+0\<close> and \<open>-0\<close>
  are both \<open>Fin 0\<close>, as \<open>===\<close> and \<open><\<close> cannot tell them apart.

  A function reference \<open>JFun i n\<close> carries an identity \<open>i\<close> and its \<open>.name\<close> \<open>n\<close>.
  An object literal is the list of its own properties in the order of their creation.
  What it inherits from \<open>Object.prototype\<close> is written out where the source or
  \<open>typeOf\<close> reads an object of its own making or a value it was given: the
  \<open>constructor\<close> and the \<open>valueOf\<close> of a value, and the messages of a property.
  A function has no property but its \<open>name\<close> and its \<open>length\<close>.
\<close>

datatype jsnum = NaN | NegInf | Fin real | PosInf

datatype jsval =
    JUndefined
  | JNull
  | JBool bool
  | JNum jsnum
  | JStr string
  | JFun nat string
  | JArr "jsval list"
  | JObj "(string \<times> jsval) list"

text \<open>The comparison \<open>a < b\<close> and the equality \<open>a === b\<close> of two numbers.\<close>

fun num_lt :: "jsnum \<Rightarrow> jsnum \<Rightarrow> bool" where
  "num_lt NaN b = False"
| "num_lt a NaN = False"
| "num_lt PosInf b = False"
| "num_lt a NegInf = False"
| "num_lt NegInf b = True"
| "num_lt a PosInf = True"
| "num_lt (Fin a) (Fin b) = (a < b)"

fun num_eq :: "jsnum \<Rightarrow> jsnum \<Rightarrow> bool" where
  "num_eq NaN b = False"
| "num_eq a NaN = False"
| "num_eq a b = (a = b)"

text \<open>Truthiness (\<open>ToBoolean\<close>), as \<open>!x\<close>, \<open>x && y\<close> and \<open>x || y\<close> use it.\<close>

fun truthy :: "jsval \<Rightarrow> bool" where
  "truthy JUndefined = False"
| "truthy JNull = False"
| "truthy (JBool b) = b"
| "truthy (JNum n) = (n \<noteq> NaN \<and> n \<noteq> Fin 0)"
| "truthy (JStr s) = (s \<noteq> [])"
| "truthy (JFun i n) = True"
| "truthy (JArr xs) = True"
| "truthy (JObj ps) = True"

text \<open>\<open>a || b\<close> on values.\<close>

definition js_or :: "jsval \<Rightarrow> jsval \<Rightarrow> jsval" where
  "js_or a b = (if truthy a then a else b)"

text \<open>\<open>v == null\<close>: true of \<open>null\<close> and \<open>undefined\<close> only.\<close>

definition loose_eq_null :: "jsval \<Rightarrow> bool" where
  "loose_eq_null v = (v = JNull \<or> v = JUndefined)"

text \<open>
  \<open>a === b\<close>. Two numbers are compared as numbers (\<open>NaN\<close> equals nothing). Every use in
  the source has a primitive value or a function reference on one side, and there the
  comparison of the values is the comparison the language makes. (Of two arrays or two
  objects \<open>===\<close> compares identities, which plain values do not carry.)
\<close>

fun strict_eq :: "jsval \<Rightarrow> jsval \<Rightarrow> bool" where
  "strict_eq (JNum a) (JNum b) = num_eq a b"
| "strict_eq a b = (a = b)"

text \<open>The \<open>typeof\<close> operator.\<close>

fun js_typeof :: "jsval \<Rightarrow> string" where
  "js_typeof JUndefined = ''undefined''"
| "js_typeof JNull = ''object''"
| "js_typeof (JBool b) = ''boolean''"
| "js_typeof (JNum n) = ''number''"
| "js_typeof (JStr s) = ''string''"
| "js_typeof (JFun i n) = ''function''"
| "js_typeof (JArr xs) = ''object''"
| "js_typeof (JObj ps) = ''object''"

text \<open>The built-in constructors, as function references.\<close>

definition String_ctor :: jsval where "String_ctor = JFun 0 ''String''"
definition Number_ctor :: jsval where "Number_ctor = JFun 1 ''Number''"
definition Boolean_ctor :: jsval where "Boolean_ctor = JFun 2 ''Boolean''"
definition Array_ctor :: jsval where "Array_ctor = JFun 3 ''Array''"
definition Object_ctor :: jsval where "Object_ctor = JFun 4 ''Object''"
definition Function_ctor :: jsval where "Function_ctor = JFun 5 ''Function''"

text \<open>
  \<open>value.constructor\<close> of a value that is not \<open>null\<close> or \<open>undefined\<close>: the constructor of
  its kind, or for an object literal its own property \<open>constructor\<close> when it has one.
  (On \<open>null\<close> and \<open>undefined\<close> the read throws; the validator returns before it.)
\<close>

fun js_constructor :: "jsval \<Rightarrow> jsval" where
  "js_constructor (JBool b) = Boolean_ctor"
| "js_constructor (JNum n) = Number_ctor"
| "js_constructor (JStr s) = String_ctor"
| "js_constructor (JFun i n) = Function_ctor"
| "js_constructor (JArr xs) = Array_ctor"
| "js_constructor (JObj ps) =
     (case map_of ps ''constructor'' of Some c \<Rightarrow> c | None \<Rightarrow> Object_ctor)"
| "js_constructor JUndefined = JUndefined"
| "js_constructor JNull = JUndefined"

section \<open>Errors, the host and property reads\<close>

text \<open>
  A \<open>throw\<close> is a value: a function that can throw returns \<open>js_error + 'a\<close>, with \<open>Inl\<close>
  the error. \<open>TypeError\<close> is the language's own (calling what is not a function, reading
  a property of \<open>null\<close>, destructuring \<open>undefined\<close>); \<open>UnknownType n\<close> is the \<open>Error\<close>
  that \<open>Property.typecast\<close> throws for the type name \<open>n\<close>; \<open>Thrown v\<close> is whatever a
  function of the caller throws.
\<close>

datatype js_error = TypeError | UnknownType jsval | Thrown jsval

text \<open>
  What the language and the caller supply, and the repository does not define, is a
  parameter of the model:
  \<^item> \<open>call i args\<close>: the result of calling the function of identity \<open>i\<close> on \<open>args\<close>;
  \<^item> \<open>call_on i this args\<close>: the result of calling it as a method of the receiver
    \<open>this\<close>;
  \<^item> \<open>arity i\<close>: the \<open>.length\<close> of that function;
  \<^item> \<open>lt_conv a b\<close>: \<open>a < b\<close> where the language first converts a string, an array,
    an object or a function (\<open>ToPrimitive\<close>, \<open>StringToNumber\<close>);
  \<^item> \<open>parse_int v\<close>: the number \<open>parseInt(v)\<close>;
  \<^item> \<open>to_str v\<close>: the string \<open>ToString(v)\<close> of a value that is not a string, as a
    property key.
\<close>

record host =
  call :: "nat \<Rightarrow> jsval list \<Rightarrow> js_error + jsval"
  call_on :: "nat \<Rightarrow> jsval \<Rightarrow> jsval list \<Rightarrow> js_error + jsval"
  arity :: "nat \<Rightarrow> nat"
  lt_conv :: "jsval \<Rightarrow> jsval \<Rightarrow> bool"
  parse_int :: "jsval \<Rightarrow> jsnum"
  to_str :: "jsval \<Rightarrow> string"

text \<open>
  A canonical array index: \<open>''0''\<close>, or decimal digits with no leading zero, below
  \<open>2^32 - 1\<close>. \<open>index_string\<close> is the string of a natural number.
\<close>

definition digit_of :: "char \<Rightarrow> nat option" where
  "digit_of c =
     map_of
       [(CHR ''0'', 0), (CHR ''1'', 1), (CHR ''2'', 2), (CHR ''3'', 3), (CHR ''4'', 4),
        (CHR ''5'', 5), (CHR ''6'', 6), (CHR ''7'', 7), (CHR ''8'', 8), (CHR ''9'', 9)] c"

fun digits_val :: "nat \<Rightarrow> string \<Rightarrow> nat option" where
  "digits_val acc [] = Some acc"
| "digits_val acc (c # cs) =
     (case digit_of c of None \<Rightarrow> None | Some d \<Rightarrow> digits_val (10 * acc + d) cs)"

definition array_index :: "string \<Rightarrow> nat option" where
  "array_index s =
     (case s of
        [] \<Rightarrow> None
      | c # cs \<Rightarrow>
          if c = CHR ''0'' \<and> cs \<noteq> [] then None
          else (case digits_val 0 s of
                  None \<Rightarrow> None
                | Some n \<Rightarrow> if n < 4294967295 then Some n else None))"

definition digit_char :: "nat \<Rightarrow> char" where
  "digit_char d = ''0123456789'' ! (d mod 10)"

fun index_string :: "nat \<Rightarrow> string" where
  "index_string n =
     (if n < 10 then [digit_char n] else index_string (n div 10) @ [digit_char (n mod 10)])"

declare index_string.simps [simp del]

text \<open>
  \<open>v[k]\<close> for a value \<open>v\<close> that is not \<open>null\<close> or \<open>undefined\<close> (where the read throws;
  each caller below tests for them first): an own property of an object literal, an
  element or the \<open>length\<close> of an array or a string, the \<open>name\<close> or \<open>length\<close> of a
  function, and \<open>undefined\<close> otherwise.
\<close>

fun js_prop :: "host \<Rightarrow> jsval \<Rightarrow> string \<Rightarrow> jsval" where
  "js_prop h (JObj ps) k = (case map_of ps k of Some v \<Rightarrow> v | None \<Rightarrow> JUndefined)"
| "js_prop h (JArr xs) k =
     (if k = ''length'' then JNum (Fin (real (length xs)))
      else (case array_index k of
              Some i \<Rightarrow> if i < length xs then xs ! i else JUndefined
            | None \<Rightarrow> JUndefined))"
| "js_prop h (JStr s) k =
     (if k = ''length'' then JNum (Fin (real (length s)))
      else (case array_index k of
              Some i \<Rightarrow> if i < length s then JStr [s ! i] else JUndefined
            | None \<Rightarrow> JUndefined))"
| "js_prop h (JFun i n) k =
     (if k = ''name'' then JStr n
      else if k = ''length'' then JNum (Fin (real (arity h i)))
      else JUndefined)"
| "js_prop h v k = JUndefined"

text \<open>
  \<open>a < b\<close>. Of \<open>undefined\<close>, \<open>null\<close>, booleans and numbers the language compares the
  numbers they convert to; a comparison with \<open>undefined\<close> or \<open>NaN\<close> is false whatever
  the other side is; the rest needs the host's conversions. \<open>a > b\<close> is \<open>b < a\<close>.
\<close>

fun to_number :: "jsval \<Rightarrow> jsnum option" where
  "to_number JUndefined = Some NaN"
| "to_number JNull = Some (Fin 0)"
| "to_number (JBool b) = Some (Fin (if b then 1 else 0))"
| "to_number (JNum n) = Some n"
| "to_number v = None"

definition js_lt :: "host \<Rightarrow> jsval \<Rightarrow> jsval \<Rightarrow> bool" where
  "js_lt h a b =
     (case (to_number a, to_number b) of
        (Some x, Some y) \<Rightarrow> num_lt x y
      | (Some x, None) \<Rightarrow> if x = NaN then False else lt_conv h a b
      | (None, Some y) \<Rightarrow> if y = NaN then False else lt_conv h a b
      | (None, None) \<Rightarrow> lt_conv h a b)"

definition js_gt :: "host \<Rightarrow> jsval \<Rightarrow> jsval \<Rightarrow> bool" where
  "js_gt h a b = js_lt h b a"

text \<open>
  \<open>const { min, max } = len\<close> throws a \<open>TypeError\<close> when \<open>len\<close> is \<open>null\<close> or
  \<open>undefined\<close>, and reads the two properties otherwise.
\<close>

definition min_max :: "host \<Rightarrow> jsval \<Rightarrow> js_error + jsval \<times> jsval" where
  "min_max h len =
     (if loose_eq_null len then Inl TypeError
      else Inr (js_prop h len ''min'', js_prop h len ''max''))"

text \<open>
  \<open>typeOf\<close> is the package \<open>component-type\<close>, which the repository imports:
  \<^verbatim>\<open>module.exports = function(val){
    switch (toString.call(val)) {
      case '[object Date]': return 'date';
      case '[object RegExp]': return 'regexp';
      case '[object Arguments]': return 'arguments';
      case '[object Array]': return 'array';
      case '[object Error]': return 'error';
    }
    if (val === null) return 'null';
    if (val === undefined) return 'undefined';
    if (val !== val) return 'nan';
    if (val && val.nodeType === 1) return 'element';
    if (isBuffer(val)) return 'buffer';
    val = val.valueOf
      ? val.valueOf()
      : Object.prototype.valueOf.apply(val);
    return typeof val;
  };

  function isBuffer(obj) {
    return !!(obj != null &&
      (obj._isBuffer ||
        (obj.constructor &&
        typeof obj.constructor.isBuffer === 'function' &&
        obj.constructor.isBuffer(obj))
      ))
  }\<close>
  Of the values of the model only an array meets a case of the \<open>switch\<close>. An object
  literal inherits \<open>valueOf\<close> from \<open>Object.prototype\<close>, which returns the object itself,
  unless it has a property \<open>valueOf\<close> of its own; the \<open>valueOf\<close> of any other value
  returns the value. A method call \<open>o.m(a)\<close> throws a \<open>TypeError\<close> when \<open>o.m\<close> is not a
  function. So \<open>typeOf\<close> can throw, and it can call functions of the caller.
\<close>

definition call_method :: "host \<Rightarrow> jsval \<Rightarrow> jsval \<Rightarrow> jsval list \<Rightarrow> js_error + jsval" where
  "call_method h f recv as = (case f of JFun i n \<Rightarrow> call_on h i recv as | _ \<Rightarrow> Inl TypeError)"

definition isBuffer :: "host \<Rightarrow> jsval \<Rightarrow> js_error + bool" where
  "isBuffer h obj =
     (if loose_eq_null obj then Inr False
      else if truthy (js_prop h obj ''_isBuffer'') then Inr True
      else if truthy (js_constructor obj)
              \<and> js_typeof (js_prop h (js_constructor obj) ''isBuffer'') = ''function''
      then map_sum id truthy
             (call_method h (js_prop h (js_constructor obj) ''isBuffer'') (js_constructor obj) [obj])
      else Inr False)"

definition value_of :: "host \<Rightarrow> jsval \<Rightarrow> js_error + jsval" where
  "value_of h val =
     (case val of
        JObj ps \<Rightarrow>
          (case map_of ps ''valueOf'' of
             None \<Rightarrow> Inr val
           | Some f \<Rightarrow> if truthy f then call_method h f val [] else Inr val)
      | _ \<Rightarrow> Inr val)"

definition typeOf :: "host \<Rightarrow> jsval \<Rightarrow> js_error + string" where
  "typeOf h val =
     (case val of
        JArr xs \<Rightarrow> Inr ''array''
      | JNull \<Rightarrow> Inr ''null''
      | JUndefined \<Rightarrow> Inr ''undefined''
      | _ \<Rightarrow>
          if \<not> strict_eq val val then Inr ''nan''
          else if truthy val \<and> strict_eq (js_prop h val ''nodeType'') (JNum (Fin 1))
          then Inr ''element''
          else (case isBuffer h val of
                  Inl e \<Rightarrow> Inl e
                | Inr True \<Rightarrow> Inr ''buffer''
                | Inr False \<Rightarrow>
                    (case value_of h val of
                       Inl e \<Rightarrow> Inl e
                     | Inr r \<Rightarrow> Inr (js_typeof r))))"

section \<open>The built-in validators (validators.js)\<close>

text \<open>
  \<^verbatim>\<open>required(value, ctx, required) {
    if (required === false) return true;
    return value != null && value !== '';
  }\<close>
\<close>

definition required_v :: "jsval \<Rightarrow> jsval \<Rightarrow> jsval \<Rightarrow> bool" where
  "required_v value ctx req =
     (if strict_eq req (JBool False) then True
      else \<not> loose_eq_null value \<and> \<not> strict_eq value (JStr ''''))"

text \<open>
  \<^verbatim>\<open>type(value, ctx, name) {
    if (value == null) return true;
    if (typeof name == 'function') {
      return value.constructor === name;
    }
    return typeOf(value) === name;
  }\<close>
\<close>

definition type_v :: "host \<Rightarrow> jsval \<Rightarrow> jsval \<Rightarrow> jsval \<Rightarrow> js_error + bool" where
  "type_v h value ctx name =
     (if loose_eq_null value then Inr True
      else if js_typeof name = ''function'' then Inr (strict_eq (js_constructor value) name)
      else (case typeOf h value of
              Inl e \<Rightarrow> Inl e
            | Inr t \<Rightarrow> Inr (strict_eq (JStr t) name)))"

text \<open>
  \<^verbatim>\<open>length(value, ctx, len) {
    if (value == null) return true;
    if (typeof len == 'number') {
      return value.length === len;
    }
    const { min, max } = len;
    if (min && value.length < min) return false;
    if (max && value.length > max) return false;
    return true;
  }\<close>
\<close>

definition length_v :: "host \<Rightarrow> jsval \<Rightarrow> jsval \<Rightarrow> jsval \<Rightarrow> js_error + bool" where
  "length_v h value ctx len =
     (if loose_eq_null value then Inr True
      else if js_typeof len = ''number'' then Inr (strict_eq (js_prop h value ''length'') len)
      else (case min_max h len of
              Inl e \<Rightarrow> Inl e
            | Inr (mn, mx) \<Rightarrow>
                if truthy mn \<and> js_lt h (js_prop h value ''length'') mn then Inr False
                else if truthy mx \<and> js_gt h (js_prop h value ''length'') mx then Inr False
                else Inr True))"

text \<open>
  \<^verbatim>\<open>size(value, ctx, size) {
    if (value == null) return true;
    if (typeof size == 'number') {
      return value === size;
    }
    const { min, max } = size;
    if (parseInt(min) != null && value < min) return false;
    if (parseInt(max) != null && value > max) return false;
    return true;
  }\<close>
\<close>

definition size_v :: "host \<Rightarrow> jsval \<Rightarrow> jsval \<Rightarrow> jsval \<Rightarrow> js_error + bool" where
  "size_v h value ctx sz =
     (if loose_eq_null value then Inr True
      else if js_typeof sz = ''number'' then Inr (strict_eq value sz)
      else (case min_max h sz of
              Inl e \<Rightarrow> Inl e
            | Inr (mn, mx) \<Rightarrow>
                if \<not> loose_eq_null (JNum (parse_int h mn)) \<and> js_lt h value mn then Inr False
                else if \<not> loose_eq_null (JNum (parse_int h mx)) \<and> js_gt h value mx
                then Inr False
                else Inr True))"

section \<open>Objects as ordered registries\<close>

text \<open>
  \<open>obj[k] = v\<close> replaces the value of an own property in place and creates a new
  property after the others. \<open>Object.keys\<close> (and \<open>Object.entries\<close>) list the own
  properties: the keys that are array indices first, in ascending numeric order, then the
  other keys in the order of their creation. \<open>obj[k]\<close> reads \<open>undefined\<close> for a key
  that is absent.
\<close>

fun obj_set :: "string \<Rightarrow> 'a \<Rightarrow> (string \<times> 'a) list \<Rightarrow> (string \<times> 'a) list" where
  "obj_set k v [] = [(k, v)]"
| "obj_set k v ((k', v') # ps) =
     (if k' = k then (k, v) # ps else (k', v') # obj_set k v ps)"

definition index_key :: "string \<Rightarrow> nat" where
  "index_key k = (case array_index k of Some n \<Rightarrow> n | None \<Rightarrow> 0)"

definition is_index :: "string \<Rightarrow> bool" where
  "is_index k = (array_index k \<noteq> None)"

definition obj_keys :: "(string \<times> 'a) list \<Rightarrow> string list" where
  "obj_keys ps =
     sort_key index_key (filter is_index (map fst ps))
     @ filter (\<lambda>k. \<not> is_index k) (map fst ps)"

definition obj_get :: "(string \<times> jsval) list \<Rightarrow> string \<Rightarrow> jsval" where
  "obj_get ps k = (case map_of ps k of Some v \<Rightarrow> v | None \<Rightarrow> JUndefined)"

section \<open>Property (property.js)\<close>

text \<open>
  A registry entry is \<open>{ args, fn }\<close>. A property has its \<open>name\<close>, its \<open>registry\<close>, its
  declared type \<open>_type\<close> (here \<open>dtype\<close>) and its \<open>messages\<close>.
\<close>

record rule =
  args :: "jsval list"
  fn :: jsval

record property =
  name :: jsval
  registry :: "(string \<times> rule) list"
  dtype :: jsval
  messages :: "(string \<times> jsval) list"

text \<open>
  Modelled from the spec: the class \<open>Schema\<close> is not among the sources. A property reads
  three registries of its owning schema, \<open>schema.validators\<close>, \<open>schema.typecasters\<close> and
  \<open>schema.messages\<close>, each a mapping from a name to a value. The property holds a
  reference to the schema, so the schema as it is at the time of a call is an argument of
  the call.
\<close>

record schema =
  validators :: "(string \<times> jsval) list"
  typecasters :: "(string \<times> jsval) list"
  schema_messages :: "(string \<times> jsval) list"

text \<open>
  Modelled from the spec: the class \<open>ValidationError\<close> (\<open>./error\<close>) is not among the
  sources. It is the pair of a message and a path.
\<close>

datatype verror = ValidationError (message: jsval) (path: jsval)

text \<open>
  \<^verbatim>\<open>constructor(name, schema) {
    this.name = name;
    this.registry = {};
    this._schema = schema;
    this._type = null;
    this.messages = {};
  }\<close>
\<close>

definition Property :: "jsval \<Rightarrow> property" where
  "Property nm = \<lparr>name = nm, registry = [], dtype = JNull, messages = []\<rparr>"

text \<open>
  \<^verbatim>\<open>_register(type, args, fn) {
    this.registry[type] = { args, fn };
    return this;
  }\<close>
\<close>

definition p_register :: "string \<Rightarrow> jsval list \<Rightarrow> jsval \<Rightarrow> property \<Rightarrow> property" where
  "p_register type as f p = p\<lparr>registry := obj_set type \<lparr>args = as, fn = f\<rparr> (registry p)\<rparr>"

text \<open>
  The chaining calls. \<open>required(bool = true)\<close> takes \<open>true\<close> for an argument that is
  \<open>undefined\<close>; \<open>type\<close> also sets \<open>_type\<close>. Each registers under a fixed name, with no
  function of its own (\<open>fn\<close> is \<open>undefined\<close>).
\<close>

definition p_required :: "jsval \<Rightarrow> property \<Rightarrow> property" where
  "p_required bool p =
     p_register ''required'' [if bool = JUndefined then JBool True else bool] JUndefined p"

definition p_type :: "jsval \<Rightarrow> property \<Rightarrow> property" where
  "p_type type p = p_register ''type'' [type] JUndefined (p\<lparr>dtype := type\<rparr>)"

definition p_string :: "property \<Rightarrow> property" where
  "p_string p = p_type String_ctor p"

definition p_number :: "property \<Rightarrow> property" where
  "p_number p = p_type Number_ctor p"

definition p_array :: "property \<Rightarrow> property" where
  "p_array p = p_type Array_ctor p"

definition p_length :: "jsval \<Rightarrow> property \<Rightarrow> property" where
  "p_length rules p = p_register ''length'' [rules] JUndefined p"




text \<open>
  \<^verbatim>\<open>use(fns) {
    Object.keys(fns).forEach(name => {
      let arr = fns[name];
      if (!Array.isArray(arr)) arr = [arr];
      const fn = arr.shift();
      this._register(name, arr, fn);
    });
    return this;
  }\<close>
  \<open>shift\<close> changes the array it is called on, and an array that the caller passes is the
  caller's own object. So the arrays of the caller live in a store, from addresses to
  contents, and an entry of \<open>fns\<close> is either a value that is not an array (\<open>Bare\<close>) or
  the array at an address (\<open>Tuple\<close>). \<open>use\<close> returns the store with the property.
  \<open>[].shift()\<close> is \<open>undefined\<close> and leaves the array empty. The registry entry keeps the
  contents that the array has when it is registered. (An array written as a value, with
  no address, is shifted as an array that nobody else holds.)
\<close>

datatype use_entry = Bare jsval | Tuple nat

type_synonym store = "nat \<Rightarrow> jsval list"

definition shift :: "jsval list \<Rightarrow> jsval \<times> jsval list" where
  "shift xs = (case xs of [] \<Rightarrow> (JUndefined, []) | x # rest \<Rightarrow> (x, rest))"

definition use_step ::
  "(string \<times> use_entry) list \<Rightarrow> string \<Rightarrow> property \<times> store \<Rightarrow> property \<times> store" where
  "use_step fns nm ps =
     (case ps of (p, st) \<Rightarrow>
        (case map_of fns nm of
           Some (Tuple a) \<Rightarrow>
             (case shift (st a) of (f, rest) \<Rightarrow> (p_register nm rest f p, st(a := rest)))
         | Some (Bare (JArr xs)) \<Rightarrow>
             (case shift xs of (f, rest) \<Rightarrow> (p_register nm rest f p, st))
         | Some (Bare v) \<Rightarrow>
             (case shift [v] of (f, rest) \<Rightarrow> (p_register nm rest f p, st))
         | None \<Rightarrow>
             (case shift [JUndefined] of (f, rest) \<Rightarrow> (p_register nm rest f p, st))))"

definition p_use :: "(string \<times> use_entry) list \<Rightarrow> property \<Rightarrow> store \<Rightarrow> property \<times> store" where
  "p_use fns p st = fold (use_step fns) (obj_keys fns) (p, st)"

text \<open>
  Calling a value: the host's function when the value is a function, a \<open>TypeError\<close>
  when it is not. Every call is recorded with its arguments, so that a function returns its
  result and the list of the calls it made, in order.
\<close>

type_synonym trace = "(jsval \<times> jsval list) list"

definition js_call :: "host \<Rightarrow> jsval \<Rightarrow> jsval list \<Rightarrow> (js_error + jsval) \<times> trace" where
  "js_call h f as =
     (case f of JFun i n \<Rightarrow> (call h i as, [(f, as)]) | _ \<Rightarrow> (Inl TypeError, []))"

text \<open>
  \<^verbatim>\<open>_error(type, ctx, args, path) {
    const schema = this._schema;
    let message = this.messages[type] ||
      this.messages.default ||
      schema.messages[type] ||
      schema.messages.default;
    if (typeof message == 'function') {
      message = message(path, ctx, ...args);
    }
    return new ValidationError(message, path);
  }\<close>
\<close>

text \<open>
  \<open>this.messages\<close> is the object \<open>{}\<close> of the constructor with the messages assigned to
  it, so a read \<open>this.messages[k]\<close> finds an own property or else a member of
  \<open>Object.prototype\<close>: one of its functions, \<open>Object\<close> for \<open>constructor\<close>, and
  \<open>Object.prototype\<close> itself for \<open>__proto__\<close>. The functions have the identities 30 to 39.
\<close>

definition Object_prototype :: "(string \<times> jsval) list" where
  "Object_prototype =
     [(''constructor'', Object_ctor),
      (''__defineGetter__'', JFun 30 ''__defineGetter__''),
      (''__defineSetter__'', JFun 31 ''__defineSetter__''),
      (''hasOwnProperty'', JFun 32 ''hasOwnProperty''),
      (''__lookupGetter__'', JFun 33 ''__lookupGetter__''),
      (''__lookupSetter__'', JFun 34 ''__lookupSetter__''),
      (''isPrototypeOf'', JFun 35 ''isPrototypeOf''),
      (''propertyIsEnumerable'', JFun 36 ''propertyIsEnumerable''),
      (''toString'', JFun 37 ''toString''),
      (''valueOf'', JFun 38 ''valueOf''),
      (''toLocaleString'', JFun 39 ''toLocaleString'')]"

definition inherited :: "string \<Rightarrow> jsval" where
  "inherited k =
     (if k = ''__proto__'' then JObj Object_prototype
      else (case map_of Object_prototype k of Some v \<Rightarrow> v | None \<Rightarrow> JUndefined))"

definition own_or_inherited :: "(string \<times> jsval) list \<Rightarrow> string \<Rightarrow> jsval" where
  "own_or_inherited ps k = (case map_of ps k of Some v \<Rightarrow> v | None \<Rightarrow> inherited k)"

definition resolve_message :: "schema \<Rightarrow> property \<Rightarrow> string \<Rightarrow> jsval" where
  "resolve_message sch p type =
     js_or (js_or (js_or (own_or_inherited (messages p) type)
                         (own_or_inherited (messages p) ''default''))
                  (obj_get (schema_messages sch) type))
           (obj_get (schema_messages sch) ''default'')"

definition p_error ::
  "host \<Rightarrow> schema \<Rightarrow> property \<Rightarrow> string \<Rightarrow> jsval \<Rightarrow> jsval list \<Rightarrow> jsval
    \<Rightarrow> (js_error + verror) \<times> trace" where
  "p_error h sch p type ctx as pth =
     (let msg = resolve_message sch p type in
      if js_typeof msg = ''function'' then
        (case js_call h msg ([pth, ctx] @ as) of
           (Inl e, t) \<Rightarrow> (Inl e, t)
         | (Inr m, t) \<Rightarrow> (Inr (ValidationError m pth), t))
      else (Inr (ValidationError msg pth), []))"

text \<open>
  \<^verbatim>\<open>_run(type, value, ctx, path) {
    if (!this.registry[type]) return;
    const schema = this._schema;
    const { args, fn } = this.registry[type];
    const validator = fn || schema.validators[type];
    const valid = validator(value, ctx, ...args, path);
    if (!valid) return this._error(type, ctx, args, path);
  }\<close>
  The result is \<open>None\<close> for \<open>undefined\<close> and \<open>Some\<close> of the error otherwise.
\<close>

definition p_run ::
  "host \<Rightarrow> schema \<Rightarrow> property \<Rightarrow> string \<Rightarrow> jsval \<Rightarrow> jsval \<Rightarrow> jsval
    \<Rightarrow> (js_error + verror option) \<times> trace" where
  "p_run h sch p type value ctx pth =
     (case map_of (registry p) type of
        None \<Rightarrow> (Inr None, [])
      | Some r \<Rightarrow>
          (let validator = js_or (fn r) (obj_get (validators sch) type) in
           case js_call h validator ([value, ctx] @ args r @ [pth]) of
             (Inl e, t) \<Rightarrow> (Inl e, t)
           | (Inr valid, t) \<Rightarrow>
               if \<not> truthy valid then
                 (case p_error h sch p type ctx (args r) pth of
                    (Inl e, t') \<Rightarrow> (Inl e, t @ t')
                  | (Inr err, t') \<Rightarrow> (Inr (Some err), t @ t'))
               else (Inr None, t)))"

text \<open>
  \<^verbatim>\<open>validate(value, ctx, path = this.name) {
    const types = Object.keys(this.registry);
    for (const type of types) {
      const err = this._run(type, value, ctx, path);
      if (err) return err;
    }
    return null;
  }\<close>
  The result is \<open>None\<close> for \<open>null\<close>.
\<close>

fun validate_loop ::
  "host \<Rightarrow> schema \<Rightarrow> property \<Rightarrow> string list \<Rightarrow> jsval \<Rightarrow> jsval \<Rightarrow> jsval
    \<Rightarrow> (js_error + verror option) \<times> trace" where
  "validate_loop h sch p [] value ctx pth = (Inr None, [])"
| "validate_loop h sch p (type # types) value ctx pth =
     (case p_run h sch p type value ctx pth of
        (Inl e, t) \<Rightarrow> (Inl e, t)
      | (Inr (Some err), t) \<Rightarrow> (Inr (Some err), t)
      | (Inr None, t) \<Rightarrow>
          (case validate_loop h sch p types value ctx pth of (r, t') \<Rightarrow> (r, t @ t')))"

definition p_validate ::
  "host \<Rightarrow> schema \<Rightarrow> property \<Rightarrow> jsval \<Rightarrow> jsval \<Rightarrow> jsval
    \<Rightarrow> (js_error + verror option) \<times> trace" where
  "p_validate h sch p value ctx pth =
     validate_loop h sch p (obj_keys (registry p)) value ctx
       (if pth = JUndefined then name p else pth)"

text \<open>
  \<^verbatim>\<open>typecast(value) {
    const schema = this._schema;
    let type = this._type;
    if (!type) return value;
    if (typeof type == 'function') {
      type = type.name;
    }
    const cast = schema.typecasters[type] ||
      schema.typecasters[type.toLowerCase()];
    if (typeof cast != 'function') {
      throw new Error(`... ${type}.`);
    }
    return cast(value);
  }\<close>
  \<open>toLowerCase\<close> of a string lowers the letters \<open>A\<close> to \<open>Z\<close> (strings are sequences of
  8-bit characters here). On a value that is not a string, \<open>type.toLowerCase()\<close> calls
  the value's property of that name, which throws a \<open>TypeError\<close> unless the property is
  a function. A property key that is not a string is converted by the host.
\<close>

definition lower_char :: "char \<Rightarrow> char" where
  "lower_char c =
     (let n = (of_char c :: nat) in if 65 \<le> n \<and> n \<le> 90 then char_of (n + 32) else c)"

definition toLowerCase :: "string \<Rightarrow> string" where
  "toLowerCase s = map lower_char s"

definition prop_key :: "host \<Rightarrow> jsval \<Rightarrow> string" where
  "prop_key h v = (case v of JStr s \<Rightarrow> s | _ \<Rightarrow> to_str h v)"

definition lower_of :: "host \<Rightarrow> jsval \<Rightarrow> (js_error + jsval) \<times> trace" where
  "lower_of h type =
     (case type of
        JStr s \<Rightarrow> (Inr (JStr (toLowerCase s)), [])
      | _ \<Rightarrow> js_call h (js_prop h type ''toLowerCase'') [])"

definition p_typecast ::
  "host \<Rightarrow> schema \<Rightarrow> property \<Rightarrow> jsval \<Rightarrow> (js_error + jsval) \<times> trace" where
  "p_typecast h sch p value =
     (if \<not> truthy (dtype p) then (Inr value, [])
      else
        (let type = (if js_typeof (dtype p) = ''function'' then js_prop h (dtype p) ''name''
                     else dtype p);
             first = obj_get (typecasters sch) (prop_key h type)
         in case (if truthy first then (Inr first, [])
                  else (case lower_of h type of
                          (Inl e, t) \<Rightarrow> (Inl e, t)
                        | (Inr l, t) \<Rightarrow> (Inr (obj_get (typecasters sch) (prop_key h l)), t)))
            of
              (Inl e, t) \<Rightarrow> (Inl e, t)
            | (Inr cast, t) \<Rightarrow>
                if js_typeof cast \<noteq> ''function'' then (Inl (UnknownType type), t)
                else (case js_call h cast [value] of (r, t') \<Rightarrow> (r, t @ t'))))"

section \<open>Paths (utils.js)\<close>

text \<open>
  The accumulators of \<open>join\<close>, \<open>walk\<close> and \<open>enumerate\<close> are \<open>undefined\<close> (a first call
  passes no path), an array index, or a string. \<open>pstr\<close> is the string a template
  literal or \<open>+\<close> makes of one.
  \<^verbatim>\<open>export function join(path, prefix) {
    return prefix
      ? `${prefix}.${path}`
      : path;
  }\<close>
\<close>

datatype pathv = PUndef | PNum nat | PStr string

fun path_truthy :: "pathv \<Rightarrow> bool" where
  "path_truthy PUndef = False"
| "path_truthy (PNum n) = (n \<noteq> 0)"
| "path_truthy (PStr s) = (s \<noteq> [])"

fun pstr :: "pathv \<Rightarrow> string" where
  "pstr PUndef = ''undefined''"
| "pstr (PNum n) = index_string n"
| "pstr (PStr s) = s"

definition join :: "pathv \<Rightarrow> pathv \<Rightarrow> pathv" where
  "join pth prefix = (if path_truthy prefix then PStr (pstr prefix @ ''.'' @ pstr pth) else pth)"








text \<open>
  \<^verbatim>\<open>export function enumerate(path, obj, callback) {
    const parts = path.split(/\.\$(?=\.|$)/);
    const first = parts.shift();
    const arr = dot.get(obj, first);
    if (!parts.length) {
      return callback(first, arr);
    }
    if (!Array.isArray(arr)) {
      return;
    }
    for (let i = 0; i < arr.length; i++) {
      const current = join(i, first);
      const next = current + parts.join('.$');
      enumerate(next, obj, callback);
    }
  }\<close>
  The result is the list of the invocations of the callback, in order, each as the value
  of \<open>callback\<close> on its two arguments; the callback only reads \<open>obj\<close>. \<open>collect\<close> runs
  the iterations of the loop in order, up to the first that throws. \<open>split\<close> never
  returns an empty array, so the first case below is never taken. The measure of the
  recursion is the number of \<open>$\<close> in the path.
\<close>

fun collect :: "(js_error + 'r list) list \<Rightarrow> js_error + 'r list" where
  "collect [] = Inr []"
| "collect (Inl e # rs) = Inl e"
| "collect (Inr xs # rs) = (case collect rs of Inl e \<Rightarrow> Inl e | Inr ys \<Rightarrow> Inr (xs @ ys))"















text \<open>
  \<^verbatim>\<open>export function walk(obj, callback, path, prop) {
    const type = typeOf(obj);
    if (type === 'array') {
      obj.forEach((v, i) =>
        walk(v, callback, join(i, path), join('$', prop))
      );
      return;
    }
    if (type !== 'object') {
      return;
    }
    for (const [key, val] of Object.entries(obj)) {
      const newPath = join(key, path);
      const newProp = join(key, prop);
      if (callback(newPath, newProp)) {
        walk(val, callback, newPath, newProp);
      }
    }
  }\<close>
  The result is the list of what happens, in order: \<open>Visit path prop\<close> when \<open>walk\<close> is
  entered on a node with these accumulators, \<open>Call path prop\<close> when the callback is invoked
  on them. The callback is the boolean its result is tested for. \<open>elements\<close> are the
  elements of an array and \<open>entries\<close> the \<open>Object.entries\<close> of an object. When
  \<open>typeOf\<close> throws on a node, \<open>walk\<close> throws.
\<close>

datatype walk_event = Visit pathv pathv | Call pathv pathv

definition elements :: "jsval \<Rightarrow> jsval list" where
  "elements obj = (case obj of JArr xs \<Rightarrow> xs | _ \<Rightarrow> [])"

definition obj_entries :: "(string \<times> jsval) list \<Rightarrow> (string \<times> jsval) list" where
  "obj_entries ps = map (\<lambda>k. (k, obj_get ps k)) (obj_keys ps)"

definition entries :: "jsval \<Rightarrow> (string \<times> jsval) list" where
  "entries obj = (case obj of JObj ps \<Rightarrow> obj_entries ps | _ \<Rightarrow> [])"

lemma size_elements: "v \<in> set (elements obj) \<Longrightarrow> size v < size obj"
proof (cases obj)
  case (JArr xs)
  assume "v \<in> set (elements obj)"
  then have "v \<in> set xs" using JArr by (simp add: elements_def)
  then have "size v \<le> size_list size xs" by (rule size_list_estimation') simp
  then show ?thesis using JArr by simp
qed (simp_all add: elements_def)

lemma size_entries: "(k, v) \<in> set (entries obj) \<Longrightarrow> size v < size obj"
proof (cases obj)
  case (JObj ps)
  assume "(k, v) \<in> set (entries obj)"
  then have kv: "k \<in> set (obj_keys ps)" "v = obj_get ps k"
    using JObj by (auto simp: entries_def obj_entries_def)
  then have "k \<in> fst ` set ps" by (auto simp: obj_keys_def)
  then obtain w where w: "map_of ps k = Some w"
    by (cases "map_of ps k") (auto simp: map_of_eq_None_iff)
  then have "v = w" using kv(2) by (simp add: obj_get_def)
  then have "(k, v) \<in> set ps" using w by (auto dest: map_of_SomeD)
  then have "size_prod (\<lambda>x. 0) size (k, v) \<le> size_list (size_prod (\<lambda>x. 0) size) ps"
    by (rule size_list_estimation') simp
  then show ?thesis using JObj by simp
qed (simp_all add: entries_def)

function walk ::
  "host \<Rightarrow> jsval \<Rightarrow> (pathv \<Rightarrow> pathv \<Rightarrow> bool) \<Rightarrow> pathv \<Rightarrow> pathv
    \<Rightarrow> js_error + walk_event list" where
  "walk h obj callback pth prop =
     (case typeOf h obj of
        Inl e \<Rightarrow> Inl e
      | Inr type \<Rightarrow>
          map_sum id (Cons (Visit pth prop))
            (if type = ''array'' then
               collect
                 (map (\<lambda>(i, v). walk h v callback (join (PNum i) pth) (join (PStr ''$'') prop))
                    (zip [0..<length (elements obj)] (elements obj)))
             else if type \<noteq> ''object'' then Inr []
             else
               collect
                 (map (\<lambda>(key, val).
                    let newPath = join (PStr key) pth; newProp = join (PStr key) prop
                    in map_sum id (Cons (Call newPath newProp))
                         (if callback newPath newProp
                          then walk h val callback newPath newProp
                          else Inr []))
                  (entries obj))))"
  by pat_completeness auto
termination
  apply (relation "measure (\<lambda>(h, obj, callback, pth, prop). size obj)")
    apply simp
   apply (auto dest!: set_zip_rightD simp: size_elements size_entries)
  done

declare walk.simps [simp del]

section \<open>The validator table and a host for concrete runs\<close>

text \<open>
  \<open>plain_host\<close> is the host of a program with no function of its own, whose conversions
  all fail (\<open>NaN\<close>, the empty key, no comparison holds). \<open>std_host\<close> adds the functions
  of the table \<open>Validators\<close> that are modelled above, at the identities 10 to 13, and
  functions as a caller may pass them: 20 and 22 return \<open>false\<close>, 21 returns \<open>true\<close>,
  23 returns its first argument, 24 throws its first argument; as methods, 25 returns the
  number 7 and 26 returns \<open>true\<close>. \<open>Object.prototype.toString\<close>, the function 37, returns
  \<open>'[object Undefined]'\<close> when it is called as a function, with no receiver.
  \<open>arg as k\<close> is the \<open>k\<close>-th argument of a call, \<open>undefined\<close> when it is not passed.
\<close>

definition plain_host :: host where
  "plain_host =
     \<lparr>call = (\<lambda>i as. Inr JUndefined), call_on = (\<lambda>i recv as. Inr JUndefined),
      arity = (\<lambda>i. 0), lt_conv = (\<lambda>a b. False),
      parse_int = (\<lambda>v. NaN), to_str = (\<lambda>v. [])\<rparr>"

definition arg :: "jsval list \<Rightarrow> nat \<Rightarrow> jsval" where
  "arg as k = (if k < length as then as ! k else JUndefined)"

definition std_call :: "nat \<Rightarrow> jsval list \<Rightarrow> js_error + jsval" where
  "std_call i as =
     (if i = 10 then Inr (JBool (required_v (arg as 0) (arg as 1) (arg as 2)))
      else if i = 11 then map_sum id JBool (type_v plain_host (arg as 0) (arg as 1) (arg as 2))
      else if i = 12 then map_sum id JBool (length_v plain_host (arg as 0) (arg as 1) (arg as 2))
      else if i = 13 then map_sum id JBool (size_v plain_host (arg as 0) (arg as 1) (arg as 2))
      else if i = 20 then Inr (JBool False)
      else if i = 21 then Inr (JBool True)
      else if i = 22 then Inr (JBool False)
      else if i = 23 then Inr (arg as 0)
      else if i = 24 then Inl (Thrown (arg as 0))
      else if i = 37 then Inr (JStr ''[object Undefined]'')
      else Inr JUndefined)"

definition std_call_on :: "nat \<Rightarrow> jsval \<Rightarrow> jsval list \<Rightarrow> js_error + jsval" where
  "std_call_on i recv as =
     (if i = 25 then Inr (JNum (Fin 7))
      else if i = 26 then Inr (JBool True)
      else Inr JUndefined)"

definition std_host :: host where
  "std_host = plain_host\<lparr>call := std_call, call_on := std_call_on\<rparr>"

definition Validators :: "(string \<times> jsval) list" where
  "Validators =
     [(''required'', JFun 10 ''required''), (''type'', JFun 11 ''type''),
      (''length'', JFun 12 ''length''), (''size'', JFun 13 ''size'')]"

section \<open>Concrete inputs\<close>

text \<open>
  \<open>example_schema\<close> has the validators of the table, one typecaster and a few messages.
  \<open>username\<close> is the property of the definition
  \<open>{ type: String, required: true, length: { min: 3, max: 5 } }\<close>. \<open>unordered\<close> is a
  property on which \<open>use({ b: f })\<close> and then \<open>use({ 1: g })\<close> were called, with two
  functions that return \<open>false\<close>.
\<close>

definition example_schema :: schema where
  "example_schema =
     \<lparr>validators = Validators,
      typecasters = [(''string'', JFun 23 ''string'')],
      schema_messages =
        [(''required'', JStr ''is required''), (''length'', JStr ''bad length''),
         (''type'', JFun 23 ''type''), (''b'', JStr ''b failed''), (''1'', JStr ''1 failed''),
         (''default'', JStr ''failed'')]\<rparr>"

definition username :: property where
  "username =
     p_length (JObj [(''min'', JNum (Fin 3)), (''max'', JNum (Fin 5))])
       (p_required JUndefined (p_type String_ctor (Property (JStr ''username''))))"

definition unordered :: property where
  "unordered =
     fst (p_use [(''1'', Bare (JFun 22 ''g''))]
            (fst (p_use [(''b'', Bare (JFun 20 ''f''))] (Property (JStr ''a'')) (\<lambda>a. []))) (\<lambda>a. []))"

text \<open>
  \<open>bits_store\<close> holds the array \<open>[g, 32]\<close> at the address 0, as the caller of
  \<open>use({ binary: f, bits: [g, 32] })\<close> has it.
\<close>

definition bits_store :: store where
  "bits_store = (\<lambda>a. if a = 0 then [JFun 23 ''bits'', JNum (Fin 32)] else [])"


text \<open>
  \<open>nested\<close> is the object \<open>{ a: [{ b: 1 }], c: { d: null } }\<close>. \<open>prune_at x\<close> is a
  callback that returns false on the path \<open>x\<close> and true on every other path.
\<close>

definition nested :: jsval where
  "nested = JObj [(''a'', JArr [JObj [(''b'', JNum (Fin 1))]]), (''c'', JObj [(''d'', JNull)])]"

definition prune_at :: "pathv \<Rightarrow> pathv \<Rightarrow> pathv \<Rightarrow> bool" where
  "prune_at x p q = (p \<noteq> x)"

section \<open>The vocabulary of the properties\<close>

text \<open>
  The validator of the rule \<open>k\<close> of a property is the function given at the registration
  when there is one, and the entry \<open>k\<close> of the schema's validators otherwise; it is called
  on the value, the context, the arguments of the registration and the path. A rule
  passes when that call returns a truthy value, and fails when it returns a falsy one.
\<close>

definition validator_of :: "schema \<Rightarrow> property \<Rightarrow> string \<Rightarrow> jsval" where
  "validator_of sch p k =
     (case map_of (registry p) k of
        Some r \<Rightarrow> js_or (fn r) (obj_get (validators sch) k)
      | None \<Rightarrow> JUndefined)"

definition rule_args :: "property \<Rightarrow> string \<Rightarrow> jsval list" where
  "rule_args p k = (case map_of (registry p) k of Some r \<Rightarrow> args r | None \<Rightarrow> [])"

definition rule_call ::
  "schema \<Rightarrow> property \<Rightarrow> jsval \<Rightarrow> jsval \<Rightarrow> jsval \<Rightarrow> string \<Rightarrow> jsval \<times> jsval list" where
  "rule_call sch p value ctx pth k = (validator_of sch p k, [value, ctx] @ rule_args p k @ [pth])"

definition rule_result ::
  "host \<Rightarrow> schema \<Rightarrow> property \<Rightarrow> jsval \<Rightarrow> jsval \<Rightarrow> jsval \<Rightarrow> string \<Rightarrow> js_error + jsval" where
  "rule_result h sch p value ctx pth k =
     (case rule_call sch p value ctx pth k of (f, as) \<Rightarrow> fst (js_call h f as))"

definition passes ::
  "host \<Rightarrow> schema \<Rightarrow> property \<Rightarrow> jsval \<Rightarrow> jsval \<Rightarrow> jsval \<Rightarrow> string \<Rightarrow> bool" where
  "passes h sch p value ctx pth k =
     (case rule_result h sch p value ctx pth k of Inr v \<Rightarrow> truthy v | Inl e \<Rightarrow> False)"

definition fails ::
  "host \<Rightarrow> schema \<Rightarrow> property \<Rightarrow> jsval \<Rightarrow> jsval \<Rightarrow> jsval \<Rightarrow> string \<Rightarrow> bool" where
  "fails h sch p value ctx pth k =
     (case rule_result h sch p value ctx pth k of Inr v \<Rightarrow> \<not> truthy v | Inl e \<Rightarrow> False)"


section \<open>Properties of the validators\<close>

lemma strict_eq_JBool: "strict_eq v (JBool b) = (v = JBool b)"
  by (cases v) simp_all

lemma strict_eq_JStr: "strict_eq v (JStr s) = (v = JStr s)"
  by (cases v) simp_all

lemma strict_eq_JStr_left: "strict_eq (JStr s) v = (v = JStr s)"
  by (cases v) auto

lemma strict_eq_JFun: "strict_eq v (JFun i n) = (v = JFun i n)"
  by (cases v) simp_all

lemma js_typeof_function: "(js_typeof v = ''function'') = (\<exists>i n. v = JFun i n)"
  by (cases v) simp_all

text \<open>
  C2. With the argument \<open>true\<close> the validator \<open>required\<close> returns false exactly on \<open>null\<close>,
  \<open>undefined\<close> and the empty string, and true on every other value; with the argument
  \<open>false\<close> it returns true on every value.
\<close>

theorem required_spec:
  "required_v v ctx (JBool True) = (v \<noteq> JNull \<and> v \<noteq> JUndefined \<and> v \<noteq> JStr '''')
   \<and> required_v v ctx (JBool False)"
  by (simp add: required_v_def loose_eq_null_def strict_eq_JStr)

lemma array_index_nodeType: "array_index ''nodeType'' = None"
  by (simp add: array_index_def digit_of_def)

lemma array_index_isBuffer: "array_index ''_isBuffer'' = None"
  by (simp add: array_index_def digit_of_def)

lemma num_eq_refl: "num_eq n n = (n \<noteq> NaN)"
  by (cases n) simp_all

lemma isBuffer_prim:
  "isBuffer h (JStr s) = Inr False" "isBuffer h (JBool b) = Inr False"
  "isBuffer h (JNum n) = Inr False" "isBuffer h (JFun i f) = Inr False"
  by (simp_all add: isBuffer_def loose_eq_null_def array_index_isBuffer String_ctor_def
      Boolean_ctor_def Number_ctor_def Function_ctor_def)

lemma typeOf_prim:
  "typeOf h (JArr xs) = Inr ''array''"
  "typeOf h JNull = Inr ''null''"
  "typeOf h JUndefined = Inr ''undefined''"
  "typeOf h (JNum NaN) = Inr ''nan''"
  "n \<noteq> NaN \<Longrightarrow> typeOf h (JNum n) = Inr ''number''"
  "typeOf h (JStr s) = Inr ''string''"
  "typeOf h (JBool b) = Inr ''boolean''"
  "typeOf h (JFun i f) = Inr ''function''"
  by (simp_all add: typeOf_def isBuffer_prim value_of_def array_index_nodeType num_eq_refl)

text \<open>
  C3. The validator \<open>type\<close> with argument \<open>T\<close> returns true on \<open>null\<close> and \<open>undefined\<close>.
  On any other value it returns true exactly when \<open>T\<close> is a function and the value's
  constructor is that very function, or \<open>T\<close> is a string and the value's type name, as
  \<open>typeOf\<close> gives it, is that string. (With a \<open>T\<close> that is not a function it throws when
  \<open>typeOf\<close> throws.)
\<close>

theorem type_v_spec:
  "type_v h v ctx T =
     (if v = JNull \<or> v = JUndefined then Inr True
      else if \<exists>i n. T = JFun i n then Inr (js_constructor v = T)
      else map_sum id (\<lambda>t. T = JStr t) (typeOf h v))
   \<and> (type_v h v ctx T = Inr True) =
       (v = JNull \<or> v = JUndefined
        \<or> (\<exists>i n. T = JFun i n) \<and> js_constructor v = T
        \<or> (\<exists>t. T = JStr t \<and> typeOf h v = Inr t))"
  by (cases "typeOf h v")
    (auto simp: type_v_def loose_eq_null_def js_typeof_function strict_eq_JFun
      strict_eq_JStr_left)

lemmas type_defs = type_v_def typeOf_def isBuffer_def value_of_def call_method_def
  loose_eq_null_def array_index_def digit_of_def String_ctor_def Number_ctor_def
  Boolean_ctor_def Array_ctor_def Object_ctor_def Function_ctor_def std_host_def
  std_call_on_def plain_host_def

text \<open>
  On strings, numbers, arrays and \<open>NaN\<close>; on object literals, among them one with a
  constructor of its own, one with \<open>nodeType\<close> 1, two that \<open>isBuffer\<close> accepts, one whose
  \<open>valueOf\<close> is not a function and one whose \<open>valueOf\<close> returns a number.
\<close>

theorem type_v_spec_witness:
  "type_v std_host JNull JNull (JStr ''string'') = Inr True
   \<and> type_v std_host (JStr ''x'') JNull String_ctor = Inr True
   \<and> type_v std_host (JStr ''x'') JNull (JStr ''string'') = Inr True
   \<and> type_v std_host (JNum (Fin 1)) JNull String_ctor = Inr False
   \<and> type_v std_host (JArr []) JNull Array_ctor = Inr True
   \<and> type_v std_host (JArr []) JNull (JStr ''array'') = Inr True
   \<and> type_v std_host (JArr []) JNull (JStr ''object'') = Inr False
   \<and> type_v std_host (JNum NaN) JNull Number_ctor = Inr True
   \<and> type_v std_host (JNum NaN) JNull (JStr ''number'') = Inr False
   \<and> type_v std_host (JObj []) JNull Object_ctor = Inr True
   \<and> type_v std_host (JObj []) JNull (JStr ''object'') = Inr True
   \<and> type_v std_host (JObj [(''constructor'', String_ctor)]) JNull String_ctor = Inr True
   \<and> type_v std_host (JObj [(''nodeType'', JNum (Fin 1))]) JNull (JStr ''object'') = Inr False
   \<and> type_v std_host (JObj [(''nodeType'', JNum (Fin 1))]) JNull (JStr ''element'') = Inr True
   \<and> type_v std_host (JObj [(''_isBuffer'', JBool True)]) JNull (JStr ''buffer'') = Inr True
   \<and> type_v std_host (JObj [(''constructor'', JObj [(''isBuffer'', JFun 26 ''isBuffer'')])])
        JNull (JStr ''buffer'') = Inr True
   \<and> type_v std_host (JObj [(''valueOf'', JNum (Fin 1))]) JNull (JStr ''object'') = Inl TypeError
   \<and> type_v std_host (JObj [(''valueOf'', JFun 25 ''valueOf'')]) JNull (JStr ''number'') = Inr True"
  using type_v_spec [of std_host "JStr ''x''" JNull String_ctor]
  by (simp add: type_defs)

lemma js_lt_Fin: "js_lt h (JNum (Fin x)) (JNum (Fin y)) = (x < y)"
  by (simp add: js_lt_def)

lemma num_lt_NaN_right: "num_lt a NaN = False"
  by (cases a) simp_all

lemma js_lt_undefined_right: "js_lt h v JUndefined = False"
  by (cases v) (simp_all add: js_lt_def num_lt_NaN_right)

lemma js_lt_undefined_left: "js_lt h JUndefined v = False"
  by (cases v) (simp_all add: js_lt_def)

lemma strict_eq_JNum: "strict_eq v (JNum m) = (\<exists>l. v = JNum l \<and> num_eq l m)"
  by (cases v) auto

text \<open>
  C4. For a value that is not \<open>null\<close> or \<open>undefined\<close>: with \<open>{ min, max }\<close> both bounds
  of \<open>length\<close> and of \<open>size\<close> are inclusive, so that a length or a value equal to \<open>min\<close>
  or to \<open>max\<close> passes; a bound that is omitted constrains nothing on its side; and with
  a bare number the validator passes exactly when the length, respectively the value,
  is \<open>===\<close> to it. (For \<open>length\<close> a bound is tested for truthiness first, so a bound
  \<open>0\<close> constrains nothing either.)
\<close>

theorem length_size_bounds:
  assumes "v \<noteq> JNull" and "v \<noteq> JUndefined"
  shows
   "(js_prop h v ''length'' = JNum (Fin n) \<and> map_of ps ''min'' = Some (JNum (Fin a))
        \<and> map_of ps ''max'' = Some (JNum (Fin b))
      \<longrightarrow> length_v h v ctx (JObj ps) = Inr ((a = 0 \<or> a \<le> n) \<and> (b = 0 \<or> n \<le> b))
          \<and> (a \<le> b \<and> (n = a \<or> n = b) \<longrightarrow> length_v h v ctx (JObj ps) = Inr True))
    \<and> (js_prop h (JObj qs) ''min'' = JUndefined
      \<longrightarrow> length_v h v ctx (JObj qs)
          = Inr (\<not> (truthy (js_prop h (JObj qs) ''max'')
                    \<and> js_gt h (js_prop h v ''length'') (js_prop h (JObj qs) ''max''))))
    \<and> (js_prop h (JObj rs) ''max'' = JUndefined
      \<longrightarrow> length_v h v ctx (JObj rs)
          = Inr (\<not> (truthy (js_prop h (JObj rs) ''min'')
                    \<and> js_lt h (js_prop h v ''length'') (js_prop h (JObj rs) ''min''))))
    \<and> length_v h v ctx (JNum m) = Inr (\<exists>l. js_prop h v ''length'' = JNum l \<and> num_eq l m)
    \<and> (v = JNum (Fin x) \<and> map_of ps ''min'' = Some (JNum (Fin a))
        \<and> map_of ps ''max'' = Some (JNum (Fin b))
      \<longrightarrow> size_v h v ctx (JObj ps) = Inr (a \<le> x \<and> x \<le> b))
    \<and> (js_prop h (JObj qs) ''min'' = JUndefined
      \<longrightarrow> size_v h v ctx (JObj qs) = Inr (\<not> js_gt h v (js_prop h (JObj qs) ''max'')))
    \<and> (js_prop h (JObj rs) ''max'' = JUndefined
      \<longrightarrow> size_v h v ctx (JObj rs) = Inr (\<not> js_lt h v (js_prop h (JObj rs) ''min'')))
    \<and> size_v h v ctx (JNum m) = Inr (\<exists>x. v = JNum x \<and> num_eq x m)"
  using assms
  by (auto simp: length_v_def size_v_def min_max_def loose_eq_null_def js_gt_def js_lt_Fin
      js_lt_undefined_right js_lt_undefined_left strict_eq_JNum)

text \<open>At concrete strings and numbers, with the bounds 3 and 5.\<close>

theorem length_size_bounds_witness:
  "length_v plain_host (JStr ''abc'') JNull
      (JObj [(''min'', JNum (Fin 3)), (''max'', JNum (Fin 5))]) = Inr True
   \<and> length_v plain_host (JStr ''abcde'') JNull
      (JObj [(''min'', JNum (Fin 3)), (''max'', JNum (Fin 5))]) = Inr True
   \<and> length_v plain_host (JStr ''abcdef'') JNull
      (JObj [(''min'', JNum (Fin 3)), (''max'', JNum (Fin 5))]) = Inr False
   \<and> length_v plain_host (JStr ''abcdef'') JNull (JObj [(''min'', JNum (Fin 3))]) = Inr True
   \<and> length_v plain_host (JStr ''a'') JNull (JObj [(''max'', JNum (Fin 5))]) = Inr True
   \<and> length_v plain_host (JStr ''abc'') JNull (JNum (Fin 3)) = Inr True
   \<and> size_v plain_host (JNum (Fin 3)) JNull
      (JObj [(''min'', JNum (Fin 3)), (''max'', JNum (Fin 5))]) = Inr True
   \<and> size_v plain_host (JNum (Fin 5)) JNull
      (JObj [(''min'', JNum (Fin 3)), (''max'', JNum (Fin 5))]) = Inr True
   \<and> size_v plain_host (JNum (Fin 6)) JNull (JObj [(''min'', JNum (Fin 3))]) = Inr True
   \<and> size_v plain_host (JNum (Fin 1)) JNull (JObj [(''max'', JNum (Fin 5))]) = Inr True
   \<and> size_v plain_host (JNum (Fin 3)) JNull (JNum (Fin 3)) = Inr True"
proof -
  let ?r = "[(''min'', JNum (Fin 3)), (''max'', JNum (Fin 5))]"
  let ?lo = "[(''min'', JNum (Fin 3))]"
  let ?hi = "[(''max'', JNum (Fin 5))]"
  note T = length_size_bounds [where h = plain_host and ctx = JNull]
  have "length_v plain_host (JStr ''abc'') JNull (JObj ?r) = Inr True"
    using T [where v = "JStr ''abc''" and n = 3 and ps = ?r and a = 3 and b = 5] by simp
  moreover have "length_v plain_host (JStr ''abcde'') JNull (JObj ?r) = Inr True"
    using T [where v = "JStr ''abcde''" and n = 5 and ps = ?r and a = 3 and b = 5] by simp
  moreover have "length_v plain_host (JStr ''abcdef'') JNull (JObj ?r) = Inr False"
    using T [where v = "JStr ''abcdef''" and n = 6 and ps = ?r and a = 3 and b = 5] by simp
  moreover have "length_v plain_host (JStr ''abcdef'') JNull (JObj ?lo) = Inr True"
    using T [where v = "JStr ''abcdef''" and rs = ?lo] by (simp add: js_gt_def js_lt_def)
  moreover have "length_v plain_host (JStr ''a'') JNull (JObj ?hi) = Inr True"
    using T [where v = "JStr ''a''" and qs = ?hi] by (simp add: js_gt_def js_lt_def)
  moreover have "length_v plain_host (JStr ''abc'') JNull (JNum (Fin 3)) = Inr True"
    using T [where v = "JStr ''abc''" and m = "Fin 3"] by simp
  moreover have "size_v plain_host (JNum (Fin 3)) JNull (JObj ?r) = Inr True"
    using T [where v = "JNum (Fin 3)" and x = 3 and ps = ?r and a = 3 and b = 5] by simp
  moreover have "size_v plain_host (JNum (Fin 5)) JNull (JObj ?r) = Inr True"
    using T [where v = "JNum (Fin 5)" and x = 5 and ps = ?r and a = 3 and b = 5] by simp
  moreover have "size_v plain_host (JNum (Fin 6)) JNull (JObj ?lo) = Inr True"
    using T [where v = "JNum (Fin 6)" and rs = ?lo] by (simp add: js_gt_def js_lt_def)
  moreover have "size_v plain_host (JNum (Fin 1)) JNull (JObj ?hi) = Inr True"
    using T [where v = "JNum (Fin 1)" and qs = ?hi] by (simp add: js_gt_def js_lt_def)
  moreover have "size_v plain_host (JNum (Fin 3)) JNull (JNum (Fin 3)) = Inr True"
    using T [where v = "JNum (Fin 3)" and m = "Fin 3"] by simp
  ultimately show ?thesis by simp
qed


section \<open>Properties of the registry\<close>


lemma map_of_obj_set: "map_of (obj_set k v ps) k' = (if k' = k then Some v else map_of ps k')"
  by (induction ps) auto


lemma registry_p_register:
  "registry (p_register r a f p) = obj_set r \<lparr>args = a, fn = f\<rparr> (registry p)"
  by (simp add: p_register_def)







section \<open>Properties of validation\<close>

lemma js_call_JFun: "js_call h (JFun i n) as = (call h i as, [(JFun i n, as)])"
  by (simp add: js_call_def)

lemma js_call_Inr: "fst (js_call h f as) = Inr v \<Longrightarrow> snd (js_call h f as) = [(f, as)]"
  by (cases f) (simp_all add: js_call_def)

lemma set_obj_keys: "set (obj_keys ps) = set (map fst ps)"
  by (auto simp: obj_keys_def)

lemma obj_keys_no_index:
  "list_all (\<lambda>k. \<not> is_index k) (map fst ps) \<Longrightarrow> obj_keys ps = map fst ps"
proof -
  assume a: "list_all (\<lambda>k. \<not> is_index k) (map fst ps)"
  then have "filter is_index (map fst ps) = []"
    by (auto simp: list_all_iff filter_empty_conv)
  moreover from a have "filter (\<lambda>k. \<not> is_index k) (map fst ps) = map fst ps"
    by (auto simp: list_all_iff filter_id_conv)
  ultimately show ?thesis by (simp add: obj_keys_def)
qed

lemma obj_keys_order:
  "filter is_index (obj_keys ps) = sort_key index_key (filter is_index (map fst ps))
   \<and> filter (\<lambda>k. \<not> is_index k) (obj_keys ps) = filter (\<lambda>k. \<not> is_index k) (map fst ps)
   \<and> obj_keys ps = filter is_index (obj_keys ps) @ filter (\<lambda>k. \<not> is_index k) (obj_keys ps)"
proof -
  have 1: "filter is_index (sort_key index_key (filter is_index (map fst ps)))
      = sort_key index_key (filter is_index (map fst ps))"
    by (simp add: filter_id_conv)
  have 2: "filter (\<lambda>k. \<not> is_index k) (sort_key index_key (filter is_index (map fst ps))) = []"
    by (simp add: filter_empty_conv)
  show ?thesis by (simp add: obj_keys_def 1 2)
qed

lemma p_run_passes:
  assumes "passes h sch p value ctx pth k"
  shows "p_run h sch p k value ctx pth = (Inr None, [rule_call sch p value ctx pth k])"
proof -
  obtain r where r: "map_of (registry p) k = Some r"
    using assms
    by (cases "map_of (registry p) k")
      (auto simp: passes_def rule_result_def rule_call_def validator_of_def js_call_def)
  let ?f = "js_or (fn r) (obj_get (validators sch) k)"
  let ?as = "[value, ctx] @ args r @ [pth]"
  from assms r obtain v where v: "fst (js_call h ?f ?as) = Inr v" "truthy v"
    by (auto simp: passes_def rule_result_def rule_call_def validator_of_def rule_args_def
        split: sum.splits)
  from v(1) have "js_call h ?f ?as = (Inr v, [(?f, ?as)])"
    using js_call_Inr [OF v(1)] by (simp add: prod_eq_iff)
  with v(2) r show ?thesis
    by (simp add: p_run_def rule_call_def validator_of_def rule_args_def)
qed

lemma p_run_fails:
  assumes "fails h sch p value ctx pth k"
  shows "p_run h sch p k value ctx pth
    = (map_sum id Some (fst (p_error h sch p k ctx (rule_args p k) pth)),
       rule_call sch p value ctx pth k # snd (p_error h sch p k ctx (rule_args p k) pth))"
proof -
  obtain r where r: "map_of (registry p) k = Some r"
    using assms
    by (cases "map_of (registry p) k")
      (auto simp: fails_def rule_result_def rule_call_def validator_of_def js_call_def)
  let ?f = "js_or (fn r) (obj_get (validators sch) k)"
  let ?as = "[value, ctx] @ args r @ [pth]"
  from assms r obtain v where v: "fst (js_call h ?f ?as) = Inr v" "\<not> truthy v"
    by (auto simp: fails_def rule_result_def rule_call_def validator_of_def rule_args_def
        split: sum.splits)
  from v(1) have "js_call h ?f ?as = (Inr v, [(?f, ?as)])"
    using js_call_Inr [OF v(1)] by (simp add: prod_eq_iff)
  with v(2) r show ?thesis
    by (cases "p_error h sch p k ctx (args r) pth")
      (auto simp: p_run_def rule_call_def validator_of_def rule_args_def split: sum.splits)
qed

lemma validate_loop_all:
  "list_all (passes h sch p value ctx pth) ks \<Longrightarrow>
   validate_loop h sch p ks value ctx pth = (Inr None, map (rule_call sch p value ctx pth) ks)"
  by (induction ks) (simp_all add: p_run_passes)

lemma validate_loop_first:
  assumes "list_all (passes h sch p value ctx pth) pre" and "fails h sch p value ctx pth k"
  shows "validate_loop h sch p (pre @ k # post) value ctx pth
    = (map_sum id Some (fst (p_error h sch p k ctx (rule_args p k) pth)),
       map (rule_call sch p value ctx pth) (pre @ [k])
       @ snd (p_error h sch p k ctx (rule_args p k) pth))"
  using assms(1)
proof (induction pre)
  case Nil
  show ?case
    by (cases "fst (p_error h sch p k ctx (rule_args p k) pth)")
      (simp_all add: p_run_fails [OF assms(2)])
next
  case (Cons a pre)
  then show ?case by (simp add: p_run_passes)
qed

lemma p_error_path: "fst (p_error h sch p k ctx as pth) = Inr e \<Longrightarrow> path e = pth"
  by (auto simp: p_error_def Let_def split: if_splits prod.splits sum.splits)

text \<open>
  C1 (as amended). \<open>p.validate(value, ctx, path)\<close> runs the rules in the order of
  \<open>Object.keys(registry)\<close>: the rule names that are array indices first, in ascending
  numeric order, then the other names in the order of their first registration (which is
  the insertion order when no name is an array index). It calls the validator of each rule
  on \<open>(value, ctx, ...args, path)\<close>. The first rule that fails stops the iteration: the result
  is the error of that rule, at that path, and the calls made are those of the rules up to
  it and of its message. When every rule passes, and when the registry is empty, the result
  is \<open>null\<close>. An omitted path is the name of the property.
\<close>

theorem validate_first_failure:
  "(registry p = [] \<longrightarrow> p_validate h sch p v ctx pth = (Inr None, []))
   \<and> (obj_keys (registry p) = pre @ k # post
       \<and> list_all (passes h sch p v ctx pth) pre \<and> fails h sch p v ctx pth k
       \<and> pth \<noteq> JUndefined
      \<longrightarrow> p_validate h sch p v ctx pth
          = (map_sum id Some (fst (p_error h sch p k ctx (rule_args p k) pth)),
             map (rule_call sch p v ctx pth) (pre @ [k])
             @ snd (p_error h sch p k ctx (rule_args p k) pth))
        \<and> (\<forall>e. fst (p_error h sch p k ctx (rule_args p k) pth) = Inr e \<longrightarrow> path e = pth))
   \<and> (list_all (passes h sch p v ctx pth) (obj_keys (registry p)) \<and> pth \<noteq> JUndefined
      \<longrightarrow> p_validate h sch p v ctx pth
          = (Inr None, map (rule_call sch p v ctx pth) (obj_keys (registry p))))
   \<and> p_validate h sch p v ctx JUndefined = p_validate h sch p v ctx (name p)
   \<and> (list_all (\<lambda>k. \<not> is_index k) (map fst (registry p))
      \<longrightarrow> obj_keys (registry p) = map fst (registry p))
   \<and> filter is_index (obj_keys (registry p))
       = sort_key index_key (filter is_index (map fst (registry p)))
   \<and> filter (\<lambda>k. \<not> is_index k) (obj_keys (registry p))
       = filter (\<lambda>k. \<not> is_index k) (map fst (registry p))
   \<and> obj_keys (registry p)
       = filter is_index (obj_keys (registry p))
         @ filter (\<lambda>k. \<not> is_index k) (obj_keys (registry p))"
proof (intro conjI impI)
  assume "registry p = []"
  then show "p_validate h sch p v ctx pth = (Inr None, [])"
    by (simp add: p_validate_def obj_keys_def)
next
  assume a: "obj_keys (registry p) = pre @ k # post
     \<and> list_all (passes h sch p v ctx pth) pre \<and> fails h sch p v ctx pth k
     \<and> pth \<noteq> JUndefined"
  then show "p_validate h sch p v ctx pth
          = (map_sum id Some (fst (p_error h sch p k ctx (rule_args p k) pth)),
             map (rule_call sch p v ctx pth) (pre @ [k])
             @ snd (p_error h sch p k ctx (rule_args p k) pth))"
    by (simp add: p_validate_def validate_loop_first)
  show "\<forall>e. fst (p_error h sch p k ctx (rule_args p k) pth) = Inr e \<longrightarrow> path e = pth"
    by (simp add: p_error_path)
next
  assume "list_all (passes h sch p v ctx pth) (obj_keys (registry p)) \<and> pth \<noteq> JUndefined"
  then show "p_validate h sch p v ctx pth
          = (Inr None, map (rule_call sch p v ctx pth) (obj_keys (registry p)))"
    by (simp add: p_validate_def validate_loop_all)
next
  show "p_validate h sch p v ctx JUndefined = p_validate h sch p v ctx (name p)"
    by (simp add: p_validate_def)
next
  assume "list_all (\<lambda>k. \<not> is_index k) (map fst (registry p))"
  then show "obj_keys (registry p) = map fst (registry p)"
    by (rule obj_keys_no_index)
next
  show "filter is_index (obj_keys (registry p))
       = sort_key index_key (filter is_index (map fst (registry p)))"
    using obj_keys_order [of "registry p"] by blast
next
  show "filter (\<lambda>k. \<not> is_index k) (obj_keys (registry p))
       = filter (\<lambda>k. \<not> is_index k) (map fst (registry p))"
    using obj_keys_order [of "registry p"] by blast
next
  show "obj_keys (registry p)
       = filter is_index (obj_keys (registry p))
         @ filter (\<lambda>k. \<not> is_index k) (obj_keys (registry p))"
    using obj_keys_order [of "registry p"] by blast
qed

lemmas run_defs =
  own_or_inherited_def inherited_def Object_prototype_def Object_ctor_def typeOf_def
  isBuffer_def value_of_def call_method_def std_call_on_def
  example_schema_def username_def unordered_def Validators_def std_host_def std_call_def
  plain_host_def arg_def p_length_def p_required_def p_type_def Property_def p_register_def
  p_use_def use_step_def shift_def obj_keys_def is_index_def index_key_def array_index_def
  digit_of_def obj_get_def p_validate_def p_run_def p_error_def resolve_message_def js_or_def
  js_call_def required_v_def type_v_def length_v_def size_v_def min_max_def loose_eq_null_def
  js_lt_def js_gt_def String_ctor_def rule_call_def rule_args_def validator_of_def
  rule_result_def passes_def fails_def

lemma username_registry:
  "registry username =
     [(''type'', \<lparr>args = [JFun 0 ''String''], fn = JUndefined\<rparr>),
      (''required'', \<lparr>args = [JBool True], fn = JUndefined\<rparr>),
      (''length'', \<lparr>args = [JObj [(''min'', JNum (Fin 3)), (''max'', JNum (Fin 5))]],
                     fn = JUndefined\<rparr>)]"
  by (simp add: run_defs)

text \<open>
  On \<open>username\<close>: \<open>''ab''\<close> fails at \<open>length\<close>, after \<open>type\<close> and \<open>required\<close> passed;
  \<open>undefined\<close> fails at \<open>required\<close> and \<open>length\<close> is not run; \<open>''abcd''\<close> passes.
\<close>

theorem validate_first_failure_witness:
  "p_validate std_host example_schema (Property (JStr ''username'')) (JStr ''ab'') JNull
       (JStr ''username'') = (Inr None, [])
   \<and> p_validate std_host example_schema username (JStr ''ab'') JNull (JStr ''username'')
       = (Inr (Some (ValidationError (JStr ''bad length'') (JStr ''username''))),
          [(JFun 11 ''type'', [JStr ''ab'', JNull, JFun 0 ''String'', JStr ''username'']),
           (JFun 10 ''required'', [JStr ''ab'', JNull, JBool True, JStr ''username'']),
           (JFun 12 ''length'',
            [JStr ''ab'', JNull, JObj [(''min'', JNum (Fin 3)), (''max'', JNum (Fin 5))],
             JStr ''username''])])
   \<and> p_validate std_host example_schema username JUndefined JNull (JStr ''username'')
       = (Inr (Some (ValidationError (JStr ''is required'') (JStr ''username''))),
          [(JFun 11 ''type'', [JUndefined, JNull, JFun 0 ''String'', JStr ''username'']),
           (JFun 10 ''required'', [JUndefined, JNull, JBool True, JStr ''username''])])
   \<and> p_validate std_host example_schema username (JStr ''abcd'') JNull (JStr ''username'')
       = (Inr None,
          [(JFun 11 ''type'', [JStr ''abcd'', JNull, JFun 0 ''String'', JStr ''username'']),
           (JFun 10 ''required'', [JStr ''abcd'', JNull, JBool True, JStr ''username'']),
           (JFun 12 ''length'',
            [JStr ''abcd'', JNull, JObj [(''min'', JNum (Fin 3)), (''max'', JNum (Fin 5))],
             JStr ''username''])])
   \<and> obj_keys (registry username) = [''type'', ''required'', ''length'']"
proof -
  note T = validate_first_failure [where h = std_host and sch = example_schema
      and ctx = JNull and pth = "JStr ''username''"]
  have 1: "p_validate std_host example_schema (Property (JStr ''username'')) (JStr ''ab'') JNull
       (JStr ''username'') = (Inr None, [])"
    using T [where p = "Property (JStr ''username'')" and v = "JStr ''ab''"]
    by (simp add: Property_def)
  have 2: "p_validate std_host example_schema username (JStr ''ab'') JNull (JStr ''username'')
       = (Inr (Some (ValidationError (JStr ''bad length'') (JStr ''username''))),
          [(JFun 11 ''type'', [JStr ''ab'', JNull, JFun 0 ''String'', JStr ''username'']),
           (JFun 10 ''required'', [JStr ''ab'', JNull, JBool True, JStr ''username'']),
           (JFun 12 ''length'',
            [JStr ''ab'', JNull, JObj [(''min'', JNum (Fin 3)), (''max'', JNum (Fin 5))],
             JStr ''username''])])"
    using T [where p = username and v = "JStr ''ab''" and pre = "[''type'', ''required'']"
        and k = "''length''" and post = "[]"]
    by (simp add: username_registry) (simp add: run_defs)
  have 3: "p_validate std_host example_schema username JUndefined JNull (JStr ''username'')
       = (Inr (Some (ValidationError (JStr ''is required'') (JStr ''username''))),
          [(JFun 11 ''type'', [JUndefined, JNull, JFun 0 ''String'', JStr ''username'']),
           (JFun 10 ''required'', [JUndefined, JNull, JBool True, JStr ''username''])])"
    using T [where p = username and v = JUndefined and pre = "[''type'']"
        and k = "''required''" and post = "[''length'']"]
    by (simp add: username_registry) (simp add: run_defs)
  have 4: "p_validate std_host example_schema username (JStr ''abcd'') JNull (JStr ''username'')
       = (Inr None,
          [(JFun 11 ''type'', [JStr ''abcd'', JNull, JFun 0 ''String'', JStr ''username'']),
           (JFun 10 ''required'', [JStr ''abcd'', JNull, JBool True, JStr ''username'']),
           (JFun 12 ''length'',
            [JStr ''abcd'', JNull, JObj [(''min'', JNum (Fin 3)), (''max'', JNum (Fin 5))],
             JStr ''username''])])"
    using T [where p = username and v = "JStr ''abcd''"]
    by (simp add: username_registry) (simp add: run_defs)
  have 5: "obj_keys (registry username) = [''type'', ''required'', ''length'']"
    using T [where p = username]
    by (simp add: username_registry) (simp add: run_defs)
  from 1 2 3 4 5 show ?thesis by simp
qed

text \<open>
  C1 as stated, with the rules run in insertion order, fails: on \<open>unordered\<close> the rule
  \<open>b\<close> was registered first and fails, yet the error is that of the rule \<open>1\<close>, and the
  validator of \<open>b\<close> is not called.
\<close>

theorem validate_insertion_order_counterexample:
  "map fst (registry unordered) = [''b'', ''1'']
   \<and> fails std_host example_schema unordered (JNum (Fin 7)) JNull (JStr ''a'') ''b''
   \<and> p_validate std_host example_schema unordered (JNum (Fin 7)) JNull (JStr ''a'')
       = (Inr (Some (ValidationError (JStr ''1 failed'') (JStr ''a''))),
          [(JFun 22 ''g'', [JNum (Fin 7), JNull, JStr ''a''])])"
  by (simp add: run_defs)

section \<open>Properties of the error message and of typecasting\<close>







text \<open>
  C7. \<open>p.typecast(v)\<close> returns \<open>v\<close> when the property has no declared type. With a declared
  type that is a function or a string, the name is the function's name or the string; the
  typecaster is the schema's entry under that name, or else under the lower-cased name; it
  is called on \<open>v\<close>; and \<open>typecast\<close> throws the unknown-type error, calling nothing, exactly
  when that entry is not a function.
\<close>

theorem typecast_spec:
  "(\<not> truthy (dtype p) \<longrightarrow> p_typecast h sch p v = (Inr v, []))
   \<and> ((dtype p = JFun i nm \<or> dtype p = JStr nm \<and> nm \<noteq> []) \<longrightarrow>
        (\<forall>j m. js_or (obj_get (typecasters sch) nm) (obj_get (typecasters sch) (toLowerCase nm))
                 = JFun j m
           \<longrightarrow> p_typecast h sch p v = (call h j [v], [(JFun j m, [v])]))
        \<and> ((p_typecast h sch p v = (Inl (UnknownType (JStr nm)), []))
            = (js_typeof (js_or (obj_get (typecasters sch) nm)
                                (obj_get (typecasters sch) (toLowerCase nm))) \<noteq> ''function'')))"
  by (auto simp: p_typecast_def Let_def js_or_def prop_key_def lower_of_def js_call_JFun
      js_typeof_function split: sum.splits prod.splits)

text \<open>
  With the one typecaster \<open>string\<close> of \<open>example_schema\<close>: no declared type, the type
  \<open>String\<close> found under its lower-cased name, the type \<open>''string''\<close>, and the type
  \<open>Number\<close>, which has no typecaster.
\<close>

theorem typecast_spec_witness:
  "p_typecast std_host example_schema (Property (JStr ''a'')) (JNum (Fin 7)) = (Inr (JNum (Fin 7)), [])
   \<and> p_typecast std_host example_schema (p_type String_ctor (Property (JStr ''a''))) (JNum (Fin 7))
       = (Inr (JNum (Fin 7)), [(JFun 23 ''string'', [JNum (Fin 7)])])
   \<and> p_typecast std_host example_schema (p_type (JStr ''string'') (Property (JStr ''a''))) (JNum (Fin 7))
       = (Inr (JNum (Fin 7)), [(JFun 23 ''string'', [JNum (Fin 7)])])
   \<and> p_typecast std_host example_schema (p_type Number_ctor (Property (JStr ''a''))) (JNum (Fin 7))
       = (Inl (UnknownType (JStr ''Number'')), [])"
proof -
  let ?p = "Property (JStr ''a'')"
  note T = typecast_spec [where sch = example_schema and h = std_host and v = "JNum (Fin 7)"]
  have low: "toLowerCase ''String'' = ''string''" "toLowerCase ''string'' = ''string''"
    "toLowerCase ''Number'' = ''number''"
    by code_simp+
  have 1: "p_typecast std_host example_schema ?p (JNum (Fin 7)) = (Inr (JNum (Fin 7)), [])"
    using T [where p = ?p] by (simp add: Property_def)
  have 2: "p_typecast std_host example_schema (p_type String_ctor ?p) (JNum (Fin 7))
       = (Inr (JNum (Fin 7)), [(JFun 23 ''string'', [JNum (Fin 7)])])"
    using T [where p = "p_type String_ctor ?p" and i = 0 and nm = "''String''"]
    by (simp add: low p_type_def p_register_def Property_def String_ctor_def example_schema_def
        obj_get_def js_or_def std_host_def std_call_def arg_def)
  have 3: "p_typecast std_host example_schema (p_type (JStr ''string'') ?p) (JNum (Fin 7))
       = (Inr (JNum (Fin 7)), [(JFun 23 ''string'', [JNum (Fin 7)])])"
    using T [where p = "p_type (JStr ''string'') ?p" and nm = "''string''"]
    by (simp add: low p_type_def p_register_def Property_def example_schema_def
        obj_get_def js_or_def std_host_def std_call_def arg_def)
  have 4: "p_typecast std_host example_schema (p_type Number_ctor ?p) (JNum (Fin 7))
       = (Inl (UnknownType (JStr ''Number'')), [])"
    using T [where p = "p_type Number_ctor ?p" and i = 1 and nm = "''Number''"]
    by (simp add: low p_type_def p_register_def Property_def Number_ctor_def example_schema_def
        obj_get_def js_or_def)
  from 1 2 3 4 show ?thesis by simp
qed

section \<open>Properties of use\<close>

lemma distinct_obj_keys: "distinct (map fst ps) \<Longrightarrow> distinct (obj_keys ps)"
  by (auto simp: obj_keys_def)

lemma snd_shift: "snd (shift xs) = tl xs"
  by (simp add: shift_def split: list.splits)

lemma use_step_store:
  "snd (use_step fns k (p, st)) b = (if map_of fns k = Some (Tuple b) then tl (st b) else st b)"
  by (auto simp: use_step_def snd_shift [symmetric] split: option.splits use_entry.splits
      jsval.splits prod.splits)

lemma use_step_registry:
  "map_of (registry (fst (use_step fns k (p, st)))) nm
     = (if nm = k then
          (case map_of fns k of
             Some (Tuple a) \<Rightarrow> Some \<lparr>args = tl (st a), fn = fst (shift (st a))\<rparr>
           | Some (Bare (JArr xs)) \<Rightarrow> Some \<lparr>args = tl xs, fn = fst (shift xs)\<rparr>
           | Some (Bare v) \<Rightarrow> Some \<lparr>args = [], fn = v\<rparr>
           | None \<Rightarrow> Some \<lparr>args = [], fn = JUndefined\<rparr>)
        else map_of (registry p) nm)"
  by (auto simp: use_step_def registry_p_register map_of_obj_set snd_shift [symmetric] shift_def
      split: option.splits use_entry.splits jsval.splits prod.splits list.splits)

lemma fold_use_store:
  "snd (fold (use_step fns) ks (p, st)) b
     = drop (length (filter (\<lambda>k. map_of fns k = Some (Tuple b)) ks)) (st b)"
proof (induction ks arbitrary: p st)
  case Nil
  then show ?case by simp
next
  case (Cons k ks)
  obtain p' st' where s: "use_step fns k (p, st) = (p', st')" by (cases "use_step fns k (p, st)")
  have "st' b = (if map_of fns k = Some (Tuple b) then tl (st b) else st b)"
    using use_step_store [of fns k p st b] by (simp add: s)
  then show ?case by (simp add: s Cons.IH drop_Suc)
qed

lemma fold_use_registry_other:
  "nm \<notin> set ks \<Longrightarrow>
   map_of (registry (fst (fold (use_step fns) ks (p, st)))) nm = map_of (registry p) nm"
proof (induction ks arbitrary: p st)
  case Nil
  then show ?case by simp
next
  case (Cons k ks)
  obtain p' st' where s: "use_step fns k (p, st) = (p', st')" by (cases "use_step fns k (p, st)")
  have "map_of (registry p') nm = map_of (registry p) nm"
    using use_step_registry [of fns k p st nm] Cons.prems by (simp add: s)
  with Cons show ?case by (simp add: s)
qed

lemma fold_use_registry:
  assumes "distinct ks" and "nm \<in> set ks" and "map_of fns nm = Some (Tuple a)"
    and "\<forall>k\<in>set ks. map_of fns k = Some (Tuple a) \<longrightarrow> k = nm"
  shows "map_of (registry (fst (fold (use_step fns) ks (p, st)))) nm
    = Some \<lparr>args = tl (st a), fn = fst (shift (st a))\<rparr>"
  using assms(1,2,4)
proof (induction ks arbitrary: p st)
  case Nil
  then show ?case by simp
next
  case (Cons k ks)
  obtain p' st' where s: "use_step fns k (p, st) = (p', st')" by (cases "use_step fns k (p, st)")
  show ?case
  proof (cases "k = nm")
    case True
    then have "nm \<notin> set ks" using Cons.prems(1) by simp
    then have "map_of (registry (fst (fold (use_step fns) ks (p', st')))) nm
        = map_of (registry p') nm"
      by (rule fold_use_registry_other)
    moreover have "map_of (registry p') nm = Some \<lparr>args = tl (st a), fn = fst (shift (st a))\<rparr>"
      using use_step_registry [of fns k p st nm] True assms(3) s by simp
    ultimately show ?thesis by (simp add: s)
  next
    case False
    then have "map_of fns k \<noteq> Some (Tuple a)" using Cons.prems(3) by auto
    then have "st' a = st a" using use_step_store [of fns k p st a] by (simp add: s)
    moreover have "map_of (registry (fst (fold (use_step fns) ks (p', st')))) nm
        = Some \<lparr>args = tl (st' a), fn = fst (shift (st' a))\<rparr>"
    proof (rule Cons.IH)
      show "distinct ks" using Cons.prems(1) by simp
      show "nm \<in> set ks" using Cons.prems(2) False by simp
      show "\<forall>k\<in>set ks. map_of fns k = Some (Tuple a) \<longrightarrow> k = nm"
        using Cons.prems(3) by simp
    qed
    ultimately show ?thesis by (simp add: s)
  qed
qed

lemma filter_single:
  assumes "distinct ks" and "nm \<in> set ks" and "\<forall>k\<in>set ks. P k \<longrightarrow> k = nm" and "P nm"
  shows "length (filter P ks) = 1"
proof -
  have s: "set (filter P ks) = {nm}"
  proof (intro equalityI subsetI)
    fix x assume "x \<in> set (filter P ks)"
    then have "x \<in> set ks" and "P x" by simp_all
    with assms(3) have "x = nm" by blast
    then show "x \<in> {nm}" by simp
  next
    fix x assume "x \<in> {nm}"
    then show "x \<in> set (filter P ks)" using assms(2,4) by simp
  qed
  have "distinct (filter P ks)" using assms(1) by simp
  then have "card (set (filter P ks)) = length (filter P ks)" by (rule distinct_card)
  then have "card {nm} = length (filter P ks)" unfolding s .
  then show ?thesis by simp
qed

text \<open>
  C10. When an entry \<open>fns[name]\<close> of \<open>use(fns)\<close> is an array of the caller, \<open>use\<close>
  changes that array: \<open>shift\<close> removes its first element before the registration. When
  no other entry of \<open>fns\<close> is the same array, the array \<open>[fn, ...staticArgs]\<close> holds
  \<open>staticArgs\<close> after the call, and the rule is registered with \<open>fn\<close> and those
  arguments. An array that no entry refers to is unchanged.
\<close>

theorem use_shifts_callers_array:
  assumes "distinct (map fst fns)" and "map_of fns nm = Some (Tuple a)"
  shows "(\<exists>n. snd (p_use fns p st) a = drop n (tl (st a)))
    \<and> ((\<forall>k. map_of fns k = Some (Tuple a) \<longrightarrow> k = nm) \<longrightarrow>
          snd (p_use fns p st) a = tl (st a)
          \<and> (\<forall>f static. st a = f # static \<longrightarrow>
                snd (p_use fns p st) a = static
                \<and> map_of (registry (fst (p_use fns p st))) nm
                    = Some \<lparr>args = static, fn = f\<rparr>)
          \<and> (st a = [] \<longrightarrow>
                snd (p_use fns p st) a = []
                \<and> map_of (registry (fst (p_use fns p st))) nm
                    = Some \<lparr>args = [], fn = JUndefined\<rparr>))
    \<and> (\<forall>b. (\<forall>k. map_of fns k \<noteq> Some (Tuple b)) \<longrightarrow> snd (p_use fns p st) b = st b)"
proof (intro conjI impI allI)
  let ?n = "length (filter (\<lambda>k. map_of fns k = Some (Tuple a)) (obj_keys fns))"
  have d: "distinct (obj_keys fns)" using assms(1) by (rule distinct_obj_keys)
  have "(nm, Tuple a) \<in> set fns" using assms(2) by (rule map_of_SomeD)
  then have "fst (nm, Tuple a) \<in> fst ` set fns" by (rule imageI)
  then have m: "nm \<in> set (obj_keys fns)" by (simp add: set_obj_keys)
  then have "nm \<in> set (filter (\<lambda>k. map_of fns k = Some (Tuple a)) (obj_keys fns))"
    using assms(2) by simp
  then have "?n \<noteq> 0" by (metis length_0_conv empty_iff empty_set)
  then obtain n' where n': "?n = Suc n'" by (cases ?n) simp_all
  have "snd (p_use fns p st) a = drop n' (tl (st a))"
    by (simp add: p_use_def fold_use_store n' drop_Suc)
  then show "\<exists>n. snd (p_use fns p st) a = drop n (tl (st a))" ..
  {
    assume "\<forall>k. map_of fns k = Some (Tuple a) \<longrightarrow> k = nm"
    then have only: "\<forall>k\<in>set (obj_keys fns). map_of fns k = Some (Tuple a) \<longrightarrow> k = nm"
      by blast
    have one: "?n = 1" using d m only assms(2) by (rule filter_single)
    show st: "snd (p_use fns p st) a = tl (st a)"
      by (simp add: p_use_def fold_use_store one drop_Suc)
    have rg: "map_of (registry (fst (p_use fns p st))) nm
        = Some \<lparr>args = tl (st a), fn = fst (shift (st a))\<rparr>"
      unfolding p_use_def using d m assms(2) only by (rule fold_use_registry)
    {
      fix f static assume "st a = f # static"
      then show "snd (p_use fns p st) a = static"
        and "map_of (registry (fst (p_use fns p st))) nm = Some \<lparr>args = static, fn = f\<rparr>"
        using st rg by (simp_all add: shift_def)
    }
    {
      assume "st a = []"
      then show "snd (p_use fns p st) a = []"
        and "map_of (registry (fst (p_use fns p st))) nm = Some \<lparr>args = [], fn = JUndefined\<rparr>"
        using st rg by (simp_all add: shift_def)
    }
  }
  {
    fix b assume "\<forall>k. map_of fns k \<noteq> Some (Tuple b)"
    then show "snd (p_use fns p st) b = st b" by (simp add: p_use_def fold_use_store)
  }
qed

text \<open>The call \<open>use({ binary: f, bits: [g, 32] })\<close> of the documentation.\<close>

theorem use_shifts_callers_array_witness:
  "snd (p_use [(''binary'', Bare (JFun 21 ''binary'')), (''bits'', Tuple 0)]
         (Property (JStr ''some.path'')) bits_store) 0 = [JNum (Fin 32)]
   \<and> map_of (registry (fst (p_use [(''binary'', Bare (JFun 21 ''binary'')), (''bits'', Tuple 0)]
         (Property (JStr ''some.path'')) bits_store))) ''bits''
       = Some \<lparr>args = [JNum (Fin 32)], fn = JFun 23 ''bits''\<rparr>
   \<and> snd (p_use [(''binary'', Bare (JFun 21 ''binary'')), (''bits'', Tuple 0)]
         (Property (JStr ''some.path'')) bits_store) 1 = bits_store 1"
  using use_shifts_callers_array [where fns = "[(''binary'', Bare (JFun 21 ''binary'')), (''bits'', Tuple 0)]"
      and nm = "''bits''" and a = 0 and st = bits_store and p = "Property (JStr ''some.path'')"]
  by (simp add: bits_store_def)

section \<open>Properties of enumerate\<close>











lemma index_string_digit: "n < 10 \<Longrightarrow> index_string n = [digit_char n]"
  by (subst index_string.simps) simp




section \<open>Properties of walk\<close>

lemma map_zip_upt:
  "map (\<lambda>(i, v). f i v) (zip [0..<length xs] xs) = map (\<lambda>i. f i (xs ! i)) [0..<length xs]"
  by (rule nth_equalityI) simp_all

lemma typeOf_object: "typeOf h v = Inr ''object'' \<Longrightarrow> \<exists>ps. v = JObj ps"
proof (cases v)
  case (JNum n)
  assume "typeOf h v = Inr ''object''"
  then show ?thesis using JNum by (cases "n = NaN") (simp_all add: typeOf_prim)
qed (simp_all add: typeOf_prim)

lemma js_typeof_not_array: "js_typeof x \<noteq> ''array''"
  by (cases x) simp_all

lemma typeOf_array: "(typeOf h v = Inr ''array'') = (\<exists>xs. v = JArr xs)"
proof (cases v)
  case (JNum n)
  then show ?thesis by (cases "n = NaN") (simp_all add: typeOf_prim)
next
  case (JObj ps)
  then show ?thesis
    by (auto simp: typeOf_def js_typeof_not_array split: sum.splits bool.splits if_splits)
qed (simp_all add: typeOf_prim)

lemma typeOf_plain_object:
  assumes "map_of ps ''nodeType'' = None" and "map_of ps ''_isBuffer'' = None"
    and "map_of ps ''constructor'' = None" and "map_of ps ''valueOf'' = None"
  shows "typeOf h (JObj ps) = Inr ''object''"
  using assms
  by (simp add: typeOf_def isBuffer_def value_of_def loose_eq_null_def Object_ctor_def)

lemma walk_JArr:
  "walk h (JArr xs) cb p q =
     map_sum id (Cons (Visit p q))
       (collect (map (\<lambda>i. walk h (xs ! i) cb (join (PNum i) p) (join (PStr ''$'') q))
                   [0..<length xs]))"
  by (subst walk.simps) (simp add: typeOf_prim elements_def map_zip_upt)

lemma walk_JObj:
  "typeOf h (JObj ps) = Inr ''object'' \<Longrightarrow>
   walk h (JObj ps) cb p q =
     map_sum id (Cons (Visit p q))
       (collect (map (\<lambda>(k, v).
                   map_sum id (Cons (Call (join (PStr k) p) (join (PStr k) q)))
                     (if cb (join (PStr k) p) (join (PStr k) q)
                      then walk h v cb (join (PStr k) p) (join (PStr k) q) else Inr []))
                 (obj_entries ps)))"
  by (subst walk.simps) (simp add: entries_def Let_def)

lemma walk_leaf:
  "typeOf h v = Inr t \<Longrightarrow> t \<noteq> ''array'' \<Longrightarrow> t \<noteq> ''object'' \<Longrightarrow>
   walk h v cb p q = Inr [Visit p q]"
  by (subst walk.simps) simp

lemma walk_throws: "typeOf h v = Inl e \<Longrightarrow> walk h v cb p q = Inl e"
  by (subst walk.simps) simp

text \<open>
  C9 (as amended). \<open>walk\<close> goes through a nested plain value depth first, and what it
  does on a node depends on the name \<open>typeOf\<close> gives the node. On an array it enters every
  element, in order, with the index joined to the path and \<open>$\<close> to the property name; it
  does not invoke the callback on an element, and does not ask before it enters one. On a
  node named \<open>'object'\<close>, which is an object literal, and every object literal without the
  keys \<open>nodeType\<close>, \<open>_isBuffer\<close>, \<open>constructor\<close> and \<open>valueOf\<close> is named so, it takes the
  entries in the order of \<open>Object.entries\<close>, joins the key to both accumulators, invokes
  the callback on them, and enters the value of the entry exactly when the callback returned
  a truthy value. On a node of any other name it does nothing, and it throws when \<open>typeOf\<close>
  throws. The callback is not invoked on the value \<open>walk\<close> is first called on. \<open>join\<close>
  drops a prefix that is \<open>undefined\<close>, empty or the index 0.
\<close>

theorem walk_spec:
  "walk h (JArr xs) cb p q =
     map_sum id (Cons (Visit p q))
       (collect (map (\<lambda>i. walk h (xs ! i) cb (join (PNum i) p) (join (PStr ''$'') q))
                   [0..<length xs]))
   \<and> (typeOf h (JObj ps) = Inr ''object'' \<longrightarrow>
        walk h (JObj ps) cb p q =
          map_sum id (Cons (Visit p q))
            (collect (map (\<lambda>(k, v).
                        map_sum id (Cons (Call (join (PStr k) p) (join (PStr k) q)))
                          (if cb (join (PStr k) p) (join (PStr k) q)
                           then walk h v cb (join (PStr k) p) (join (PStr k) q) else Inr []))
                      (obj_entries ps))))
   \<and> (typeOf h v = Inr t \<and> t \<noteq> ''array'' \<and> t \<noteq> ''object'' \<longrightarrow>
        walk h v cb p q = Inr [Visit p q])
   \<and> (typeOf h v = Inl e \<longrightarrow> walk h v cb p q = Inl e)
   \<and> (map_of ps ''nodeType'' = None \<and> map_of ps ''_isBuffer'' = None
        \<and> map_of ps ''constructor'' = None \<and> map_of ps ''valueOf'' = None
      \<longrightarrow> typeOf h (JObj ps) = Inr ''object'')
   \<and> (typeOf h v = Inr ''object'' \<longrightarrow> (\<exists>qs. v = JObj qs))
   \<and> (typeOf h v = Inr ''array'') = (\<exists>ys. v = JArr ys)
   \<and> join k PUndef = k \<and> join k (PNum 0) = k \<and> join k (PStr []) = k
   \<and> join k (PNum (Suc n)) = PStr (index_string (Suc n) @ ''.'' @ pstr k)
   \<and> (s \<noteq> [] \<longrightarrow> join k (PStr s) = PStr (s @ ''.'' @ pstr k))"
  by (intro conjI impI)
    (simp_all add: walk_JArr walk_JObj walk_leaf walk_throws typeOf_plain_object typeOf_object
      typeOf_array join_def)

lemmas walk_defs = obj_entries_def obj_keys_def obj_get_def is_index_def index_key_def
  array_index_def digit_of_def join_def nested_def prune_at_def index_string_digit
  digit_char_def typeOf_def isBuffer_def value_of_def call_method_def loose_eq_null_def
  Object_ctor_def

text \<open>
  On \<open>nested\<close>, with a callback that prunes at \<open>c\<close>; on an array of two objects, where
  the index 0 is dropped from the paths below it; on an object with \<open>nodeType\<close> 1, which
  is not walked into; and on an object that holds one whose \<open>valueOf\<close> is not a function.
\<close>

theorem walk_spec_witness:
  "walk std_host nested (prune_at (PStr ''c'')) PUndef PUndef =
     Inr [Visit PUndef PUndef,
          Call (PStr ''a'') (PStr ''a''), Visit (PStr ''a'') (PStr ''a''),
          Visit (PStr ''a.0'') (PStr ''a.$''),
          Call (PStr ''a.0.b'') (PStr ''a.$.b''), Visit (PStr ''a.0.b'') (PStr ''a.$.b''),
          Call (PStr ''c'') (PStr ''c'')]
   \<and> walk std_host (JArr [JObj [(''a'', JNull)], JObj [(''a'', JNull)]]) (\<lambda>p q. True)
         PUndef PUndef =
     Inr [Visit PUndef PUndef,
          Visit (PNum 0) (PStr ''$''),
          Call (PStr ''a'') (PStr ''$.a''), Visit (PStr ''a'') (PStr ''$.a''),
          Visit (PNum 1) (PStr ''$''),
          Call (PStr ''1.a'') (PStr ''$.a''), Visit (PStr ''1.a'') (PStr ''$.a'')]
   \<and> walk std_host (JObj [(''nodeType'', JNum (Fin 1)), (''x'', JObj [])]) (\<lambda>p q. True)
         PUndef PUndef = Inr [Visit PUndef PUndef]
   \<and> walk std_host (JObj [(''x'', JObj [(''valueOf'', JNum (Fin 1))])]) (\<lambda>p q. True)
         PUndef PUndef = Inl TypeError"
proof -
  note A = walk_spec [THEN conjunct1]
  note O = walk_spec [THEN conjunct2, THEN conjunct1, rule_format]
  note L = walk_spec [THEN conjunct2, THEN conjunct2, THEN conjunct1, rule_format]
  note T = walk_spec [THEN conjunct2, THEN conjunct2, THEN conjunct2, THEN conjunct1, rule_format]
  have l1: "walk std_host JNull cb p q = Inr [Visit p q]" for cb p q
    by (rule L [where t = "''null''"]) (simp_all add: typeOf_prim)
  have l2: "walk std_host (JNum (Fin 1)) cb p q = Inr [Visit p q]" for cb p q
    by (rule L [where t = "''number''"]) (simp_all add: typeOf_prim)
  note leafs = l1 l2
  have 1: "walk std_host nested (prune_at (PStr ''c'')) PUndef PUndef =
     Inr [Visit PUndef PUndef,
          Call (PStr ''a'') (PStr ''a''), Visit (PStr ''a'') (PStr ''a''),
          Visit (PStr ''a.0'') (PStr ''a.$''),
          Call (PStr ''a.0.b'') (PStr ''a.$.b''), Visit (PStr ''a.0.b'') (PStr ''a.$.b''),
          Call (PStr ''c'') (PStr ''c'')]"
    by (simp add: A O leafs walk_defs)
  have 2: "walk std_host (JArr [JObj [(''a'', JNull)], JObj [(''a'', JNull)]]) (\<lambda>p q. True)
         PUndef PUndef =
     Inr [Visit PUndef PUndef,
          Visit (PNum 0) (PStr ''$''),
          Call (PStr ''a'') (PStr ''$.a''), Visit (PStr ''a'') (PStr ''$.a''),
          Visit (PNum 1) (PStr ''$''),
          Call (PStr ''1.a'') (PStr ''$.a''), Visit (PStr ''1.a'') (PStr ''$.a'')]"
    by (simp add: A O leafs walk_defs upt_rec)
  have 3: "walk std_host (JObj [(''nodeType'', JNum (Fin 1)), (''x'', JObj [])]) (\<lambda>p q. True)
         PUndef PUndef = Inr [Visit PUndef PUndef]"
    by (rule L [where t = "''element''"]) (simp_all add: walk_defs)
  have "walk std_host (JObj [(''valueOf'', JNum (Fin 1))]) cb p q = Inl TypeError" for cb p q
    by (rule T) (simp add: walk_defs)
  then have 4: "walk std_host (JObj [(''x'', JObj [(''valueOf'', JNum (Fin 1))])]) (\<lambda>p q. True)
         PUndef PUndef = Inl TypeError"
    by (simp add: O walk_defs)
  from 1 2 3 4 show ?thesis by simp
qed

text \<open>
  C9 as stated, with the callback invoked at each visited node and deciding the descent
  into it, fails at the elements of an array: \<open>walk\<close> enters the element \<open>a.0\<close>, the
  callback is not invoked on \<open>(a.0, a.$)\<close>, and the children of the element are walked
  although the callback returns false on it.
\<close>

theorem walk_array_element_counterexample:
  "walk std_host nested (prune_at (PStr ''a.0'')) PUndef PUndef =
     Inr [Visit PUndef PUndef,
          Call (PStr ''a'') (PStr ''a''), Visit (PStr ''a'') (PStr ''a''),
          Visit (PStr ''a.0'') (PStr ''a.$''),
          Call (PStr ''a.0.b'') (PStr ''a.$.b''), Visit (PStr ''a.0.b'') (PStr ''a.$.b''),
          Call (PStr ''c'') (PStr ''c''), Visit (PStr ''c'') (PStr ''c''),
          Call (PStr ''c.d'') (PStr ''c.d''), Visit (PStr ''c.d'') (PStr ''c.d'')]
   \<and> \<not> prune_at (PStr ''a.0'') (PStr ''a.0'') (PStr ''a.$'')"
proof -
  have l1: "walk std_host JNull cb p q = Inr [Visit p q]" for cb p q
    by (rule walk_leaf [where t = "''null''"]) (simp_all add: typeOf_prim)
  have l2: "walk std_host (JNum (Fin 1)) cb p q = Inr [Visit p q]" for cb p q
    by (rule walk_leaf [where t = "''number''"]) (simp_all add: typeOf_prim)
  note leafs = l1 l2
  show ?thesis by (simp add: walk_JArr walk_JObj leafs walk_defs)
qed

end
